theory Spec2Isabelle
  imports Complex_Main
begin

section \<open>JavaScript runtime functions used by the handlers\<close>

text \<open>
  A JavaScript string is modelled as a \<^typ>\<open>string\<close> whose characters are the code
  units below 256. Numbers are modelled by the value they denote: integers that arise
  from \<open>parseInt\<close> as \<^typ>\<open>int\<close>, \<open>NaN\<close> as \<open>None\<close>.
\<close>

definition is_digit :: "char \<Rightarrow> bool" where
  "is_digit c = (48 \<le> (of_char c :: nat) \<and> (of_char c :: nat) \<le> 57)"

definition digit_value :: "char \<Rightarrow> int" where
  "digit_value c = int (of_char c) - 48"

text \<open>White space that \<open>parseInt\<close> skips: TAB, LF, VT, FF, CR, SP and NBSP.\<close>

definition is_white_space :: "char \<Rightarrow> bool" where
  "is_white_space c = ((of_char c :: nat) \<in> {9, 10, 11, 12, 13, 32, 160})"

fun digits_value :: "int \<Rightarrow> string \<Rightarrow> int" where
  "digits_value acc [] = acc"
| "digits_value acc (c # cs) = digits_value (10 * acc + digit_value c) cs"

text \<open>
  \<open>parseInt(s, 10)\<close>: skip leading white space, read an optional sign, then the longest
  run of decimal digits; no digit gives \<open>NaN\<close>. The runtime returns the nearest double
  (and \<open>-0\<close> for a negated zero); the callers only test the result for zero and clamp it,
  which the exact integer decides the same way.
\<close>

definition parseInt :: "string \<Rightarrow> int option" where
  "parseInt inputString =
     (let S = dropWhile is_white_space inputString;
          sign = (if S \<noteq> [] \<and> hd S = CHR ''-'' then - 1 else 1);
          S' = (if S \<noteq> [] \<and> (hd S = CHR ''+'' \<or> hd S = CHR ''-'') then tl S else S);
          Z = takeWhile is_digit S'
      in if Z = [] then None else Some (sign * digits_value 0 Z))"

text \<open>
  JSON values, as \<open>c.req.json()\<close> hands them to a handler. A number is modelled by the
  rational that its shortest decimal rendering denotes (literals beyond the double range
  are outside the model); the handlers only compare it with zero and pass \<open>String(value)\<close>
  to the storage engine. An object is an association list; \<open>JSON.parse\<close> keeps the last
  binding of a repeated key.
\<close>

datatype json =
    JNull
  | JBool bool
  | JNumber rat
  | JString string
  | JArray "json list"
  | JObject "(string \<times> json) list"

datatype js_error = SyntaxError | TypeError | RangeError | StorageError

text \<open>
  Reading a property of a parsed body: \<open>undefined\<close> is \<open>None\<close>. Reading a property of
  \<open>null\<close> throws; a primitive or an array has no such property.
\<close>

fun get_property :: "json \<Rightarrow> string \<Rightarrow> js_error + json option" where
  "get_property JNull k = Inl TypeError"
| "get_property (JObject fields) k = Inr (map_of (rev fields) k)"
| "get_property v k = Inr None"

text \<open>\<open>!v\<close> for a property value.\<close>

fun falsy :: "json option \<Rightarrow> bool" where
  "falsy None = True"
| "falsy (Some JNull) = True"
| "falsy (Some (JBool b)) = (\<not> b)"
| "falsy (Some (JNumber x)) = (x = 0)"
| "falsy (Some (JString s)) = (s = [])"
| "falsy (Some v) = False"

subsection \<open>Dates\<close>

text \<open>
  A valid \<open>Date\<close> is its time value, the milliseconds since the epoch; \<open>None\<close> is the
  invalid date. Days are counted from 1970-01-01 in the proleptic Gregorian calendar.
\<close>

definition msPerDay :: int where
  "msPerDay = 86400000"

definition TimeClip :: "int \<Rightarrow> int option" where
  "TimeClip t = (if \<bar>t\<bar> > 8640000000000000 then None else Some t)"

definition InLeapYear :: "int \<Rightarrow> bool" where
  "InLeapYear y = (y mod 4 = 0 \<and> (y mod 100 \<noteq> 0 \<or> y mod 400 = 0))"

definition DayFromYear :: "int \<Rightarrow> int" where
  "DayFromYear y =
     365 * (y - 1970) + (y - 1969) div 4 - (y - 1901) div 100 + (y - 1601) div 400"

definition days_in_month :: "int \<Rightarrow> int \<Rightarrow> int" where
  "days_in_month y m =
     (if m = 2 then (if InLeapYear y then 29 else 28)
      else if m = 4 \<or> m = 6 \<or> m = 9 \<or> m = 11 then 30 else 31)"

definition days_before_month :: "int \<Rightarrow> int \<Rightarrow> int" where
  "days_before_month y m =
     [0, 31, 59, 90, 120, 151, 181, 212, 243, 273, 304, 334] ! nat (m - 1)
       + (if 2 < m \<and> InLeapYear y then 1 else 0)"

text \<open>The day number of year \<open>y\<close>, month \<open>m\<close> (1 to 12), day \<open>d\<close> of the month.\<close>

definition MakeDay :: "int \<Rightarrow> int \<Rightarrow> int \<Rightarrow> int" where
  "MakeDay y m d = DayFromYear y + days_before_month y m + d - 1"

definition digits_n :: "nat \<Rightarrow> string \<Rightarrow> (int \<times> string) option" where
  "digits_n n s =
     (if n \<le> length s \<and> list_all is_digit (take n s)
      then Some (digits_value 0 (take n s), drop n s) else None)"

text \<open>A year is four digits, or a sign and six digits; \<open>-000000\<close> is not a year.\<close>

definition parse_year :: "string \<Rightarrow> (int \<times> string) option" where
  "parse_year s =
     (case s of
        [] \<Rightarrow> None
      | c # r \<Rightarrow>
          if c = CHR ''+'' then digits_n 6 r
          else if c = CHR ''-'' then
            (case digits_n 6 r of
               None \<Rightarrow> None
             | Some (y, r') \<Rightarrow> if y = 0 then None else Some (- y, r'))
          else digits_n 4 s)"

text \<open>The date forms \<open>YYYY\<close>, \<open>YYYY-MM\<close> and \<open>YYYY-MM-DD\<close>, with what follows them.\<close>

definition parse_date :: "string \<Rightarrow> (int \<times> int \<times> int \<times> string) option" where
  "parse_date s =
     (case parse_year s of
        None \<Rightarrow> None
      | Some (y, r) \<Rightarrow>
          (case r of
             [] \<Rightarrow> Some (y, 1, 1, [])
           | c # r1 \<Rightarrow>
               if c = CHR ''-'' then
                 (case digits_n 2 r1 of
                    None \<Rightarrow> None
                  | Some (m, r2) \<Rightarrow>
                      (case r2 of
                         [] \<Rightarrow> Some (y, m, 1, [])
                       | c2 # r3 \<Rightarrow>
                           if c2 = CHR ''-'' then
                             (case digits_n 2 r3 of
                                None \<Rightarrow> None
                              | Some (d, r4) \<Rightarrow> Some (y, m, d, r4))
                           else Some (y, m, 1, r2)))
               else Some (y, 1, 1, r)))"

text \<open>The time forms \<open>HH:mm\<close>, \<open>HH:mm:ss\<close> and \<open>HH:mm:ss.sss\<close>, with what follows them.\<close>

definition parse_time :: "string \<Rightarrow> (int \<times> int \<times> int \<times> int \<times> string) option" where
  "parse_time s =
     (case digits_n 2 s of
        None \<Rightarrow> None
      | Some (h, r) \<Rightarrow>
          (case r of
             [] \<Rightarrow> None
           | c # r1 \<Rightarrow>
               if c = CHR '':'' then
                 (case digits_n 2 r1 of
                    None \<Rightarrow> None
                  | Some (mi, r2) \<Rightarrow>
                      (case r2 of
                         [] \<Rightarrow> Some (h, mi, 0, 0, [])
                       | c2 # r3 \<Rightarrow>
                           if c2 = CHR '':'' then
                             (case digits_n 2 r3 of
                                None \<Rightarrow> None
                              | Some (sec, r4) \<Rightarrow>
                                  (case r4 of
                                     [] \<Rightarrow> Some (h, mi, sec, 0, [])
                                   | c3 # r5 \<Rightarrow>
                                       if c3 = CHR ''.'' then
                                         (case digits_n 3 r5 of
                                            None \<Rightarrow> None
                                          | Some (ms, r6) \<Rightarrow> Some (h, mi, sec, ms, r6))
                                       else Some (h, mi, sec, 0, r4)))
                           else Some (h, mi, 0, 0, r2)))
               else None))"

definition legal_time :: "int \<Rightarrow> int \<Rightarrow> int \<Rightarrow> int \<Rightarrow> bool" where
  "legal_time h mi sec ms =
     ((h \<le> 23 \<and> mi \<le> 59 \<and> sec \<le> 59) \<or> (h = 24 \<and> mi = 0 \<and> sec = 0 \<and> ms = 0))"

text \<open>
  The UTC offset that ends a date-time: absent (\<open>Some None\<close>: local time), \<open>Z\<close>, or
  \<open>+HH:mm\<close> / \<open>-HH:mm\<close> in minutes. \<open>None\<close> is a malformed ending.
\<close>

definition parse_zone :: "string \<Rightarrow> int option option" where
  "parse_zone s =
     (case s of
        [] \<Rightarrow> Some None
      | c # r \<Rightarrow>
          if c = CHR ''Z'' then (if r = [] then Some (Some 0) else None)
          else if c = CHR ''+'' \<or> c = CHR ''-'' then
            (case digits_n 2 r of
               None \<Rightarrow> None
             | Some (h, r1) \<Rightarrow>
                 (case r1 of
                    [] \<Rightarrow> None
                  | c1 # r2 \<Rightarrow>
                      if c1 = CHR '':'' then
                        (case digits_n 2 r2 of
                           None \<Rightarrow> None
                         | Some (mi, r3) \<Rightarrow>
                             if r3 = [] \<and> h \<le> 23 \<and> mi \<le> 59
                             then Some (Some ((if c = CHR ''-'' then - 1 else 1) * (h * 60 + mi)))
                             else None)
                      else None))
          else None)"

text \<open>
  The part of the JavaScript runtime and of the storage engine that a request reads and
  that the repository does not fix:
  \<^item> \<open>date_fallback\<close>: what \<open>Date.parse\<close> makes of a string outside the standard
    date-time format (the language leaves it to the implementation);
  \<^item> \<open>local_tza\<close>: the offset of local time at a local time value, in milliseconds;
  \<^item> \<open>js_now\<close>: what \<open>new Date()\<close> reads, a time of the current era that a
    timestamp column stores as it is;
  \<^item> \<open>db_now\<close> and \<open>db_uuid\<close>: what the column defaults \<open>NOW()\<close> and
    \<open>gen_random_uuid()\<close> yield for an inserted row, the identifier as its 16 bytes;
  \<^item> \<open>timestamp_far\<close>: what a timestamp column stores for an instant of a year
    beyond 9999, sent with an expanded year (\<open>None\<close>: the engine refuses it);
  \<^item> \<open>timestamp_reread\<close>: the \<open>Date\<close> that the query builder makes of a stored
    timestamp whose year is neither 1 to 49 nor 100 to 9999.
\<close>

record runtime =
  date_fallback :: "string \<Rightarrow> int option"
  local_tza :: "int \<Rightarrow> int"
  js_now :: int
  db_now :: int
  db_uuid :: "nat list"
  timestamp_far :: "int \<Rightarrow> int option"
  timestamp_reread :: "int \<Rightarrow> int"

text \<open>
  The standard date-time string format: the time value of a conforming string, before
  clipping. A date alone is UTC; a date-time without offset is local time. A string that
  does not conform, or names a day that its month does not have, gives \<open>None\<close>.
\<close>

definition iso_parse :: "(int \<Rightarrow> int) \<Rightarrow> string \<Rightarrow> int option" where
  "iso_parse tza s =
     (case parse_date s of
        None \<Rightarrow> None
      | Some (y, m, d, r) \<Rightarrow>
          if 1 \<le> m \<and> m \<le> 12 \<and> 1 \<le> d \<and> d \<le> days_in_month y m then
            (case r of
               [] \<Rightarrow> Some (MakeDay y m d * msPerDay)
             | c # r1 \<Rightarrow>
                 if c = CHR ''T'' then
                   (case parse_time r1 of
                      None \<Rightarrow> None
                    | Some (h, mi, sec, ms, r2) \<Rightarrow>
                        if legal_time h mi sec ms then
                          (let t = MakeDay y m d * msPerDay
                                     + ((h * 60 + mi) * 60 + sec) * 1000 + ms
                           in case parse_zone r2 of
                                None \<Rightarrow> None
                              | Some None \<Rightarrow> Some (t - tza t)
                              | Some (Some off) \<Rightarrow> Some (t - off * 60000))
                        else None)
                 else None)
          else None)"

definition Date_parse :: "runtime \<Rightarrow> string \<Rightarrow> int option" where
  "Date_parse env s =
     (case iso_parse (local_tza env) s of
        Some t \<Rightarrow> Some t
      | None \<Rightarrow> date_fallback env s)"

text \<open>\<open>new Date(s)\<close>: the parsed time value, clipped to the range of a \<open>Date\<close>.\<close>

definition new_Date :: "runtime \<Rightarrow> string \<Rightarrow> int option" where
  "new_Date env s = Option.bind (Date_parse env s) TimeClip"

subsection \<open>Rendering numbers and dates\<close>

definition digit_char :: "nat \<Rightarrow> char" where
  "digit_char n = char_of (48 + n)"

fun show_nat :: "nat \<Rightarrow> string" where
  "show_nat n = (if n < 10 then [digit_char n] else show_nat (n div 10) @ [digit_char (n mod 10)])"

declare show_nat.simps [simp del]

definition pad_left :: "nat \<Rightarrow> string \<Rightarrow> string" where
  "pad_left w s = replicate (w - length s) (CHR ''0'') @ s"

text \<open>The civil date (year, month, day) of a day number.\<close>

definition civil_from_days :: "int \<Rightarrow> int \<times> int \<times> int" where
  "civil_from_days z =
     (let z' = z + 719468;
          era = z' div 146097;
          doe = z' - era * 146097;
          yoe = (doe - doe div 1460 + doe div 36524 - doe div 146096) div 365;
          doy = doe - (365 * yoe + yoe div 4 - yoe div 100);
          mp = (5 * doy + 2) div 153;
          d = doy - (153 * mp + 2) div 5 + 1;
          m = (if mp < 10 then mp + 3 else mp - 9);
          y = yoe + era * 400 + (if m \<le> 2 then 1 else 0)
      in (y, m, d))"

text \<open>\<open>Date.prototype.toISOString\<close> of a valid date: \<open>YYYY-MM-DDTHH:mm:ss.sssZ\<close> in UTC,
  the year with a sign and six digits outside 0 to 9999.\<close>

definition toISOString :: "int \<Rightarrow> string" where
  "toISOString t =
     (let day = t div msPerDay;
          ms_in_day = t mod msPerDay;
          (y, m, d) = civil_from_days day;
          year = (if 0 \<le> y \<and> y \<le> 9999 then pad_left 4 (show_nat (nat y))
                  else (if y < 0 then ''-'' else ''+'') @ pad_left 6 (show_nat (nat \<bar>y\<bar>)))
      in year @ ''-'' @ pad_left 2 (show_nat (nat m)) @ ''-'' @ pad_left 2 (show_nat (nat d))
           @ ''T'' @ pad_left 2 (show_nat (nat (ms_in_day div 3600000)))
           @ '':'' @ pad_left 2 (show_nat (nat (ms_in_day div 60000 mod 60)))
           @ '':'' @ pad_left 2 (show_nat (nat (ms_in_day div 1000 mod 60)))
           @ ''.'' @ pad_left 3 (show_nat (nat (ms_in_day mod 1000))) @ ''Z'')"

text \<open>
  \<open>Number(s)\<close> on a decimal literal without exponent: an optional sign, digits and an
  optional fraction, which is every text a \<open>NUMERIC\<close> value or an integer is rendered as.
  \<open>None\<close> is \<open>NaN\<close>. The other forms that the runtime's \<open>Number\<close> reads (exponents,
  radix prefixes, \<open>Infinity\<close>, surrounding white space, the empty string) do not reach it
  from a numeric column and are not modelled.
\<close>

definition unsigned_decimal :: "string \<Rightarrow> rat option" where
  "unsigned_decimal s =
     (let ip = takeWhile is_digit s; rest = dropWhile is_digit s
      in case rest of
           [] \<Rightarrow> if ip = [] then None else Some (of_int (digits_value 0 ip))
         | c # fp \<Rightarrow>
             if c = CHR ''.'' \<and> list_all is_digit fp \<and> (ip \<noteq> [] \<or> fp \<noteq> [])
             then Some (of_int (digits_value 0 ip)
                          + of_int (digits_value 0 fp) / of_int (10 ^ length fp))
             else None)"

definition Number :: "string \<Rightarrow> rat option" where
  "Number s =
     (case s of
        [] \<Rightarrow> None
      | c # r \<Rightarrow>
          if c = CHR ''-'' then map_option uminus (unsigned_decimal r)
          else if c = CHR ''+'' then unsigned_decimal r
          else unsigned_decimal s)"

section \<open>Pagination parameters of the history list (routes/histories.ts)\<close>

definition DEFAULT_LIMIT :: int where
  "DEFAULT_LIMIT = 50"

definition MAX_LIMIT :: int where
  "MAX_LIMIT = 200"

text \<open>\<open>a || b\<close> on an optional string: an undefined or empty string is falsy.\<close>

definition or_string :: "string option \<Rightarrow> string \<Rightarrow> string" where
  "or_string a b = (case a of None \<Rightarrow> b | Some s \<Rightarrow> if s = [] then b else s)"

text \<open>\<open>a || b\<close> on a number: \<open>NaN\<close> and zero are falsy.\<close>

definition or_number :: "int option \<Rightarrow> int \<Rightarrow> int" where
  "or_number a b = (case a of None \<Rightarrow> b | Some n \<Rightarrow> if n = 0 then b else n)"

text \<open>
  \<open>Math.min(Math.max(1, parseInt(limitParam || String(DEFAULT_LIMIT), 10) || DEFAULT_LIMIT), MAX_LIMIT)\<close>
\<close>

definition effective_limit :: "string option \<Rightarrow> int" where
  "effective_limit limitParam =
     min (max 1 (or_number (parseInt (or_string limitParam ''50'')) DEFAULT_LIMIT)) MAX_LIMIT"

text \<open>\<open>Math.max(0, parseInt(offsetParam || "0", 10) || 0)\<close>\<close>

definition effective_offset :: "string option \<Rightarrow> int" where
  "effective_offset offsetParam = max 0 (or_number (parseInt (or_string offsetParam ''0'')) 0)"

datatype order_direction = Asc | Desc

definition effective_order :: "string option \<Rightarrow> order_direction" where
  "effective_order orderByParam = (if orderByParam = Some ''asc'' then Asc else Desc)"

section \<open>Storage (db/schema.ts, db/index.ts)\<close>

text \<open>
  The two tables, as the schema declares them. A stored history row holds typed column
  values: \<open>id\<close> a \<open>UUID\<close> (its 16 bytes), \<open>datetime\<close> a timestamp (its time value
  in milliseconds), \<open>value\<close> a \<open>NUMERIC(12, 2)\<close>, kept as the integer number of
  hundredths. The list of statements is a record of what the engine was asked to execute;
  no handler reads it.
\<close>

type_synonym uuid = "nat list"

record user_row =
  u_firebase_uid :: string
  u_email :: "string option"
  u_display_name :: "string option"
  u_created_at :: "int option"
  u_updated_at :: "int option"

record stored_history =
  s_id :: uuid
  s_user_id :: string
  s_datetime :: int
  s_value :: int
  s_created_at :: "int option"
  s_updated_at :: "int option"

datatype statement =
  SelectHistories | InsertHistory | UpdateHistories | DeleteHistories | SelectTotal | SelectUsers

record database =
  users :: "user_row list"
  histories :: "stored_history list"
  statements :: "statement list"

text \<open>
  A history row as the query builder returns it, the argument of \<open>serializeHistory\<close>:
  dates as \<open>Date\<close> objects, the numeric column as text.
\<close>

record history_row =
  row_id :: string
  row_user_id :: string
  row_datetime :: int
  row_value :: string
  row_created_at :: "int option"
  row_updated_at :: "int option"

subsection \<open>The \<open>NUMERIC(12, 2)\<close> column\<close>

text \<open>
  Writing a number into the \<open>NUMERIC(12, 2)\<close> column rounds it to two fractional digits,
  halves away from zero, and fails when ten integer digits do not hold the result.
\<close>

definition round_half_away :: "rat \<Rightarrow> int" where
  "round_half_away x = (if 0 \<le> x then \<lfloor>x + 1 / 2\<rfloor> else - \<lfloor>- x + 1 / 2\<rfloor>)"

definition numeric_12_2 :: "rat \<Rightarrow> js_error + int" where
  "numeric_12_2 v =
     (let h = round_half_away (v * 100)
      in if \<bar>h\<bar> < 10 ^ 12 then Inr h else Inl StorageError)"

text \<open>The text of a \<open>NUMERIC(12, 2)\<close> value: integer digits, a point, two digits.\<close>

definition numeric_out :: "int \<Rightarrow> string" where
  "numeric_out h =
     (if h < 0 then ''-'' else []) @ show_nat (nat \<bar>h\<bar> div 100) @ ''.''
       @ pad_left 2 (show_nat (nat \<bar>h\<bar> mod 100))"

subsection \<open>The \<open>UUID\<close> column\<close>

text \<open>
  The engine reads the text of a \<open>UUID\<close> as 32 hexadecimal digits of either case, with
  an optional hyphen after each group of four digits (not after the last), the whole
  optionally in braces; any other text is refused. It writes the lower-case digits in
  groups of 8, 4, 4, 4 and 12.
\<close>

definition is_xdigit :: "char \<Rightarrow> bool" where
  "is_xdigit c =
     (is_digit c \<or> (65 \<le> (of_char c :: nat) \<and> (of_char c :: nat) \<le> 70)
        \<or> (97 \<le> (of_char c :: nat) \<and> (of_char c :: nat) \<le> 102))"

definition xdigit_value :: "char \<Rightarrow> nat" where
  "xdigit_value c =
     (if of_char c \<le> (57 :: nat) then of_char c - 48
      else if of_char c \<le> (70 :: nat) then of_char c - 55 else of_char c - 87)"

text \<open>\<open>uuid_bytes n s\<close> reads the last \<open>n\<close> of the 16 bytes from \<open>s\<close>.\<close>

fun uuid_bytes :: "nat \<Rightarrow> string \<Rightarrow> (nat list \<times> string) option" where
  "uuid_bytes 0 s = Some ([], s)"
| "uuid_bytes (Suc n) s =
     (case s of
        a # b # r \<Rightarrow>
          if is_xdigit a \<and> is_xdigit b then
            (case uuid_bytes n
                    (if even n \<and> 0 < n \<and> r \<noteq> [] \<and> hd r = CHR ''-'' then tl r else r) of
               None \<Rightarrow> None
             | Some (bs, rest) \<Rightarrow> Some ((16 * xdigit_value a + xdigit_value b) # bs, rest))
          else None
      | _ \<Rightarrow> None)"

definition uuid_in :: "string \<Rightarrow> uuid option" where
  "uuid_in s =
     (let braces = (s \<noteq> [] \<and> hd s = CHR ''{'')
      in case uuid_bytes 16 (if braces then tl s else s) of
           None \<Rightarrow> None
         | Some (bs, rest) \<Rightarrow> if rest = (if braces then ''}'' else []) then Some bs else None)"

definition hex_char :: "nat \<Rightarrow> char" where
  "hex_char n = (if n < 10 then char_of (48 + n) else char_of (87 + n))"

definition hex_bytes :: "nat list \<Rightarrow> string" where
  "hex_bytes bs = concat (map (\<lambda>b. [hex_char (b div 16), hex_char (b mod 16)]) bs)"

definition uuid_out :: "uuid \<Rightarrow> string" where
  "uuid_out u =
     hex_bytes (take 4 u) @ ''-'' @ hex_bytes (take 2 (drop 4 u)) @ ''-''
       @ hex_bytes (take 2 (drop 6 u)) @ ''-'' @ hex_bytes (take 2 (drop 8 u)) @ ''-''
       @ hex_bytes (drop 10 u)"

subsection \<open>The \<open>TIMESTAMP\<close> columns\<close>

definition year_of :: "int \<Rightarrow> int" where
  "year_of t = fst (civil_from_days (t div msPerDay))"

text \<open>
  The query builder sends a \<open>Date\<close> as its \<open>toISOString\<close> text. The engine stores the
  instant for a year from 0001 to 9999 and refuses the year 0000 and the years before it.
\<close>

definition timestamp_in :: "runtime \<Rightarrow> int \<Rightarrow> js_error + int" where
  "timestamp_in env t =
     (if year_of t \<le> 0 then Inl StorageError
      else if year_of t \<le> 9999 then Inr t
      else (case timestamp_far env t of None \<Rightarrow> Inl StorageError | Some ts \<Rightarrow> Inr ts))"

text \<open>
  The query builder rebuilds a \<open>Date\<close> from the text of a stored timestamp followed by
  \<open>+0000\<close>, which is outside the standard date-time format: a year from 0100 to 9999 is
  read as it is, a year from 0001 to 0049 as the year 2000 years later.
\<close>

definition timestamp_out :: "runtime \<Rightarrow> int \<Rightarrow> int" where
  "timestamp_out env ts =
     (let (y, m, d) = civil_from_days (ts div msPerDay)
      in if 1 \<le> y \<and> y \<le> 49 then MakeDay (y + 2000) m d * msPerDay + ts mod msPerDay
         else if 100 \<le> y \<and> y \<le> 9999 then ts
         else timestamp_reread env ts)"

subsection \<open>Statements\<close>

definition fetch :: "runtime \<Rightarrow> stored_history \<Rightarrow> history_row" where
  "fetch env r =
     \<lparr>row_id = uuid_out (s_id r), row_user_id = s_user_id r,
      row_datetime = timestamp_out env (s_datetime r),
      row_value = numeric_out (s_value r),
      row_created_at = map_option (timestamp_out env) (s_created_at r),
      row_updated_at = map_option (timestamp_out env) (s_updated_at r)\<rparr>"

definition fetch_user :: "runtime \<Rightarrow> user_row \<Rightarrow> user_row" where
  "fetch_user env u =
     u\<lparr>u_created_at := map_option (timestamp_out env) (u_created_at u),
       u_updated_at := map_option (timestamp_out env) (u_updated_at u)\<rparr>"

definition executed :: "statement \<Rightarrow> database \<Rightarrow> database" where
  "executed st db = db\<lparr>statements := statements db @ [st]\<rparr>"

text \<open>
  \<open>select().from(histories).where(eq(user_id, userId)).orderBy(..datetime).limit(..).offset(..)\<close>.
  Rows with equal \<open>datetime\<close> keep their storage order (reversed when descending); SQL
  leaves their order open.
\<close>

definition select_histories ::
  "runtime \<Rightarrow> string \<Rightarrow> order_direction \<Rightarrow> int \<Rightarrow> int \<Rightarrow> database
     \<Rightarrow> history_row list \<times> database" where
  "select_histories env uid dir limit offset db =
     (let owned = filter (\<lambda>r. s_user_id r = uid) (histories db);
          ordered = (case dir of Asc \<Rightarrow> sort_key s_datetime owned
                     | Desc \<Rightarrow> rev (sort_key s_datetime owned))
      in (map (fetch env) (take (nat limit) (drop (nat offset) ordered)),
          executed SelectHistories db))"

text \<open>\<open>select().from(users).where(eq(firebase_uid, userId))\<close>\<close>

definition select_users :: "runtime \<Rightarrow> string \<Rightarrow> database \<Rightarrow> user_row list \<times> database" where
  "select_users env uid db =
     (map (fetch_user env) (filter (\<lambda>u. u_firebase_uid u = uid) (users db)),
      executed SelectUsers db)"

text \<open>
  \<open>insert(histories).values({user_id, datetime, value}).returning()\<close>. An invalid
  \<open>Date\<close> cannot be sent; the instant and the value are coerced to their column types;
  \<open>user_id\<close> must reference a user row; \<open>id\<close> is the primary key and defaults to a
  generated identifier; both timestamps default to \<open>NOW()\<close>. The value argument is the
  number that the text \<open>String(value)\<close> denotes.
\<close>

definition insert_history ::
  "runtime \<Rightarrow> string \<Rightarrow> int option \<Rightarrow> rat \<Rightarrow> database \<Rightarrow> (js_error + history_row list) \<times> database" where
  "insert_history env uid dt v db =
     (case dt of
        None \<Rightarrow> (Inl RangeError, db)
      | Some t \<Rightarrow>
          (case timestamp_in env t of
             Inl e \<Rightarrow> (Inl e, executed InsertHistory db)
           | Inr ts \<Rightarrow>
               (case numeric_12_2 v of
                  Inl e \<Rightarrow> (Inl e, executed InsertHistory db)
                | Inr h \<Rightarrow>
                    if uid \<in> set (map u_firebase_uid (users db))
                       \<and> db_uuid env \<notin> set (map s_id (histories db))
                    then
                      (let r = \<lparr>s_id = db_uuid env, s_user_id = uid, s_datetime = ts,
                                s_value = h, s_created_at = Some (db_now env),
                                s_updated_at = Some (db_now env)\<rparr>
                       in (Inr [fetch env r],
                           executed InsertHistory (db\<lparr>histories := histories db @ [r]\<rparr>)))
                    else (Inl StorageError, executed InsertHistory db))))"

text \<open>
  The \<open>updates\<close> object of the update handler: the keys \<open>datetime\<close> and \<open>value\<close>
  are present or not, \<open>updated_at\<close> is set before the statement runs.
\<close>

record updates =
  upd_datetime :: "int option"
  upd_value :: "rat option"
  upd_updated_at :: "int option"

text \<open>The assignment of an update: the coerced instant and value, and \<open>updated_at\<close>.\<close>

definition set_columns ::
  "int option \<Rightarrow> int option \<Rightarrow> int option \<Rightarrow> stored_history \<Rightarrow> stored_history" where
  "set_columns ts hv upd r =
     r\<lparr>s_datetime := (case ts of None \<Rightarrow> s_datetime r | Some t \<Rightarrow> t),
       s_value := (case hv of None \<Rightarrow> s_value r | Some h \<Rightarrow> h),
       s_updated_at := upd\<rparr>"

text \<open>
  \<open>update(histories).set(updates).where(and(eq(id, historyId), eq(user_id, userId))).returning()\<close>.
  The identifier and the new instant are statement parameters, which the engine reads by
  their column types before it looks at a row: a text that is not a \<open>UUID\<close> or an instant
  that the column refuses fails the statement. The new value is coerced to the column
  type for the rows that the statement matches.
\<close>

definition update_histories ::
  "runtime \<Rightarrow> updates \<Rightarrow> string \<Rightarrow> string \<Rightarrow> database
     \<Rightarrow> (js_error + history_row list) \<times> database" where
  "update_histories env u hid uid db =
     (case uuid_in hid of
        None \<Rightarrow> (Inl StorageError, executed UpdateHistories db)
      | Some i \<Rightarrow>
          (case (case upd_datetime u of None \<Rightarrow> Inr None
                 | Some t \<Rightarrow> (case timestamp_in env t of Inl e \<Rightarrow> Inl e | Inr ts \<Rightarrow> Inr (Some ts))) of
             Inl e \<Rightarrow> (Inl e, executed UpdateHistories db)
           | Inr ts \<Rightarrow>
               (let matches = (\<lambda>r. s_id r = i \<and> s_user_id r = uid)
                in if list_ex matches (histories db) then
                     (case (case upd_value u of None \<Rightarrow> Inr None
                            | Some v \<Rightarrow>
                                (case numeric_12_2 v of Inl e \<Rightarrow> Inl e | Inr h \<Rightarrow> Inr (Some h))) of
                        Inl e \<Rightarrow> (Inl e, executed UpdateHistories db)
                      | Inr hv \<Rightarrow>
                          (Inr (map (fetch env \<circ> set_columns ts hv (upd_updated_at u))
                                  (filter matches (histories db))),
                           executed UpdateHistories
                             (db\<lparr>histories :=
                                   map (\<lambda>r. if matches r
                                            then set_columns ts hv (upd_updated_at u) r else r)
                                     (histories db)\<rparr>)))
                   else (Inr [], executed UpdateHistories db))))"

text \<open>
  \<open>delete(histories).where(and(eq(id, historyId), eq(user_id, userId))).returning()\<close>:
  a text that is not a \<open>UUID\<close> fails the statement.
\<close>

definition delete_histories ::
  "runtime \<Rightarrow> string \<Rightarrow> string \<Rightarrow> database \<Rightarrow> (js_error + history_row list) \<times> database" where
  "delete_histories env hid uid db =
     (case uuid_in hid of
        None \<Rightarrow> (Inl StorageError, executed DeleteHistories db)
      | Some i \<Rightarrow>
          (let matches = (\<lambda>r. s_id r = i \<and> s_user_id r = uid)
           in (Inr (map (fetch env) (filter matches (histories db))),
               executed DeleteHistories
                 (db\<lparr>histories := filter (\<lambda>r. \<not> matches r) (histories db)\<rparr>))))"

text \<open>\<open>select({total: COALESCE(SUM(value), 0)}).from(histories)\<close>: the text of the sum,
  or of the integer 0 when there is no row.\<close>

definition select_total :: "database \<Rightarrow> string \<times> database" where
  "select_total db =
     ((if histories db = [] then ''0'' else numeric_out (sum_list (map s_value (histories db)))),
      executed SelectTotal db)"

section \<open>Serializers (lib/serializers.ts)\<close>

record History =
  out_id :: string
  out_user_id :: string
  out_datetime :: string
  out_value :: "rat option"
  out_created_at :: "string option"
  out_updated_at :: "string option"

definition serializeHistory :: "history_row \<Rightarrow> History" where
  "serializeHistory h =
     \<lparr>out_id = row_id h,
      out_user_id = row_user_id h,
      out_datetime = toISOString (row_datetime h),
      out_value = Number (row_value h),
      out_created_at = map_option toISOString (row_created_at h),
      out_updated_at = map_option toISOString (row_updated_at h)\<rparr>"

record User =
  usr_firebase_uid :: string
  usr_email :: "string option"
  usr_display_name :: "string option"
  usr_created_at :: "string option"
  usr_updated_at :: "string option"

definition serializeUser :: "user_row \<Rightarrow> User" where
  "serializeUser u =
     \<lparr>usr_firebase_uid = u_firebase_uid u,
      usr_email = u_email u,
      usr_display_name = u_display_name u,
      usr_created_at = map_option toISOString (u_created_at u),
      usr_updated_at = map_option toISOString (u_updated_at u)\<rparr>"

definition isValidDatetime :: "runtime \<Rightarrow> string \<Rightarrow> bool" where
  "isValidDatetime env datetime = (new_Date env datetime \<noteq> None)"

section \<open>Requests, responses and the history handlers (routes/histories.ts)\<close>

text \<open>
  The response envelope is built by the shared types package; its two constructors are
  modelled by their payload, without the time stamp they add. \<open>c.json(envelope, status)\<close>
  is a response; a handler either returns one or throws.
\<close>

datatype payload =
  HistoryList "History list" | HistoryItem History | Null | Total "rat option" | UserItem User

datatype envelope = successResponse payload | errorResponse string

record response =
  status :: nat
  body :: envelope

definition json_response :: "envelope \<Rightarrow> nat \<Rightarrow> response" where
  "json_response e st = \<lparr>status = st, body = e\<rparr>"

datatype outcome = Threw js_error | Responded response

record DecodedIdToken =
  uid :: string
  email :: "string option"

text \<open>The context variables that the auth middleware sets.\<close>

record "context" =
  firebaseUser :: DecodedIdToken
  userId :: string
  userEmail :: "string option"
  siteAdmin :: bool

text \<open>
  What a handler reads of a request: the \<open>Authorization\<close> header, the route parameters
  (\<open>param_userId\<close> is what \<open>c.req.param("userId")\<close> returns in the handler that runs),
  the query string and the body (\<open>None\<close>: a body that is not JSON, on which
  \<open>c.req.json()\<close> throws).
\<close>

record request =
  authorization :: "string option"
  param_userId :: string
  param_historyId :: string
  query :: "string \<Rightarrow> string option"
  req_body :: "json option"

definition req_json :: "request \<Rightarrow> js_error + json" where
  "req_json req = (case req_body req of None \<Rightarrow> Inl SyntaxError | Some b \<Rightarrow> Inr b)"

text \<open>GET /\<close>

definition historiesRouter_get ::
  "runtime \<Rightarrow> context \<Rightarrow> request \<Rightarrow> database \<Rightarrow> outcome \<times> database" where
  "historiesRouter_get env c req db =
     (if param_userId req \<noteq> userId c \<and> \<not> siteAdmin c then
        (Responded (json_response (errorResponse ''Not authorized'') 403), db)
      else
        (let limit = effective_limit (query req ''limit'');
             offset = effective_offset (query req ''offset'');
             orderDirection = effective_order (query req ''orderBy'');
             (result, db') = select_histories env (param_userId req) orderDirection limit offset db
         in (Responded (json_response (successResponse (HistoryList (map serializeHistory result))) 200),
             db')))"

text \<open>POST /\<close>

definition historiesRouter_post ::
  "runtime \<Rightarrow> context \<Rightarrow> request \<Rightarrow> database \<Rightarrow> outcome \<times> database" where
  "historiesRouter_post env c req db =
     (if param_userId req \<noteq> userId c \<and> \<not> siteAdmin c then
        (Responded (json_response (errorResponse ''Not authorized'') 403), db)
      else
        (case req_json req of
           Inl e \<Rightarrow> (Threw e, db)
         | Inr b \<Rightarrow>
             (case get_property b ''datetime'' of
                Inl e \<Rightarrow> (Threw e, db)
              | Inr datetime \<Rightarrow>
                  (case get_property b ''value'' of
                     Inl e \<Rightarrow> (Threw e, db)
                   | Inr val \<Rightarrow>
                       if falsy datetime \<or> val = None \<or> val = Some JNull then
                         (Responded (json_response
                            (errorResponse ''datetime and value are required'') 400), db)
                       else
                         (case val of
                            Some (JNumber x) \<Rightarrow>
                              if x \<le> 0 then
                                (Responded (json_response
                                   (errorResponse ''value must be a positive number'') 400), db)
                              else
                                (case datetime of
                                   Some (JString s) \<Rightarrow>
                                     if isValidDatetime env s then
                                       (case insert_history env (param_userId req)
                                               (new_Date env s) x db of
                                          (Inl e, db') \<Rightarrow> (Threw e, db')
                                        | (Inr result, db') \<Rightarrow>
                                            (case result of
                                               [] \<Rightarrow> (Threw TypeError, db')
                                             | h # _ \<Rightarrow>
                                                 (Responded (json_response
                                                    (successResponse (HistoryItem (serializeHistory h)))
                                                    201), db')))
                                     else
                                       (Responded (json_response (errorResponse
                                          ''datetime must be a valid ISO 8601 date string'') 400), db)
                                 | _ \<Rightarrow>
                                     (Responded (json_response (errorResponse
                                        ''datetime must be a valid ISO 8601 date string'') 400), db))
                          | _ \<Rightarrow>
                              (Responded (json_response
                                 (errorResponse ''value must be a positive number'') 400), db))))))"

text \<open>PUT /:historyId\<close>

definition historiesRouter_put ::
  "runtime \<Rightarrow> context \<Rightarrow> request \<Rightarrow> database \<Rightarrow> outcome \<times> database" where
  "historiesRouter_put env c req db =
     (if param_userId req \<noteq> userId c \<and> \<not> siteAdmin c then
        (Responded (json_response (errorResponse ''Not authorized'') 403), db)
      else
        (case req_json req of
           Inl e \<Rightarrow> (Threw e, db)
         | Inr b \<Rightarrow>
             (case get_property b ''datetime'' of
                Inl e \<Rightarrow> (Threw e, db)
              | Inr datetime \<Rightarrow>
                  (case (case datetime of
                           None \<Rightarrow> Some None
                         | Some (JString s) \<Rightarrow>
                             if isValidDatetime env s then Some (new_Date env s) else None
                         | Some _ \<Rightarrow> None) of
                     None \<Rightarrow>
                       (Responded (json_response (errorResponse
                          ''datetime must be a valid ISO 8601 date string'') 400), db)
                   | Some new_datetime \<Rightarrow>
                       (case get_property b ''value'' of
                          Inl e \<Rightarrow> (Threw e, db)
                        | Inr val \<Rightarrow>
                            (case (case val of
                                     None \<Rightarrow> Some None
                                   | Some (JNumber x) \<Rightarrow> if x \<le> 0 then None else Some (Some x)
                                   | Some _ \<Rightarrow> None) of
                               None \<Rightarrow>
                                 (Responded (json_response
                                    (errorResponse ''value must be a positive number'') 400), db)
                             | Some new_value \<Rightarrow>
                                 if new_datetime = None \<and> new_value = None then
                                   (Responded (json_response
                                      (errorResponse ''No fields to update'') 400), db)
                                 else
                                   (case update_histories env
                                           \<lparr>upd_datetime = new_datetime, upd_value = new_value,
                                            upd_updated_at = Some (js_now env)\<rparr>
                                           (param_historyId req) (param_userId req) db of
                                      (Inl e, db') \<Rightarrow> (Threw e, db')
                                    | (Inr result, db') \<Rightarrow>
                                        (case result of
                                           [] \<Rightarrow>
                                             (Responded (json_response
                                                (errorResponse ''History not found'') 404), db')
                                         | h # _ \<Rightarrow>
                                             (Responded (json_response
                                                (successResponse (HistoryItem (serializeHistory h)))
                                                200), db')))))))))"

text \<open>DELETE /:historyId\<close>

definition historiesRouter_delete ::
  "runtime \<Rightarrow> context \<Rightarrow> request \<Rightarrow> database \<Rightarrow> outcome \<times> database" where
  "historiesRouter_delete env c req db =
     (if param_userId req \<noteq> userId c \<and> \<not> siteAdmin c then
        (Responded (json_response (errorResponse ''Not authorized'') 403), db)
      else
        (case delete_histories env (param_historyId req) (param_userId req) db of
           (Inl e, db') \<Rightarrow> (Threw e, db')
         | (Inr result, db') \<Rightarrow>
             if result = [] then
               (Responded (json_response (errorResponse ''History not found'') 404), db')
             else (Responded (json_response (successResponse Null) 200), db')))"

section \<open>The user profile (routes/users.ts)\<close>

text \<open>GET /:userId\<close>

definition usersRouter_get ::
  "runtime \<Rightarrow> context \<Rightarrow> request \<Rightarrow> database \<Rightarrow> outcome \<times> database" where
  "usersRouter_get env c req db =
     (if param_userId req \<noteq> userId c \<and> \<not> siteAdmin c then
        (Responded (json_response (errorResponse ''Not authorized to view this user'') 403), db)
      else
        (let (result, db') = select_users env (param_userId req) db
         in (case result of
               [] \<Rightarrow> (Responded (json_response (errorResponse ''User not found'') 404), db')
             | u # _ \<Rightarrow>
                 (Responded (json_response (successResponse (UserItem (serializeUser u))) 200),
                  db'))))"

section \<open>The public total (routes/historiesTotal.ts)\<close>

text \<open>GET /total: the handler reads no context variable and no header.\<close>

definition historiesTotalRouter_get :: "database \<Rightarrow> outcome \<times> database" where
  "historiesTotalRouter_get db =
     (let (result, db') = select_total db
      in (Responded (json_response (successResponse (Total (Number result))) 200), db'))"

section \<open>The auth middleware (middleware/firebaseAuth.ts)\<close>

text \<open>
  The token verifier and the two predicates come from the auth service package and are
  parameters here; a verifier that throws is \<open>None\<close>.
\<close>

record auth_service =
  verifyIdToken :: "string \<Rightarrow> DecodedIdToken option"
  isAnonymousUser :: "DecodedIdToken \<Rightarrow> bool"
  isSiteAdmin :: "string option \<Rightarrow> bool"

text \<open>
  \<open>s.split(" ")\<close>: the pieces between single spaces; never an empty list. The
  middleware binds the first two pieces, \<open>[type, token]\<close>; a missing second piece is
  \<open>undefined\<close>, which is falsy like the empty one.
\<close>

fun split_space :: "string \<Rightarrow> string list" where
  "split_space [] = [[]]"
| "split_space (c # cs) =
     (if c = CHR '' '' then [] # split_space cs
      else (case split_space cs of [] \<Rightarrow> [[c]] | p # ps \<Rightarrow> (c # p) # ps))"

text \<open>
  The middleware either answers itself or awaits \<open>next()\<close>, the rest of the chain, inside
  its \<open>try\<close> block: a rejection of \<open>next()\<close> would be answered like a failed verification.
  The detached call of \<open>ensureUserExists\<close> runs beside the request and is not part of the
  middleware's result.
\<close>

definition firebaseAuthMiddleware ::
  "auth_service \<Rightarrow> request \<Rightarrow> (context \<Rightarrow> database \<Rightarrow> outcome \<times> database) \<Rightarrow> database
     \<Rightarrow> outcome \<times> database" where
  "firebaseAuthMiddleware svc req next db =
     (case authorization req of
        None \<Rightarrow>
          (Responded (json_response (errorResponse ''Authorization header required'') 401), db)
      | Some authHeader \<Rightarrow>
          if authHeader = [] then
            (Responded (json_response (errorResponse ''Authorization header required'') 401), db)
          else
            (case split_space authHeader of
               type # token # _ \<Rightarrow>
                 if type \<noteq> ''Bearer'' \<or> token = [] then
                   (Responded (json_response (errorResponse
                      ''Invalid authorization format. Use: Bearer <token>'') 401), db)
                 else
                   (case verifyIdToken svc token of
                      None \<Rightarrow>
                        (Responded (json_response
                           (errorResponse ''Invalid or expired Firebase token'') 401), db)
                    | Some decodedToken \<Rightarrow>
                        if isAnonymousUser svc decodedToken then
                          (Responded (json_response (errorResponse
                             ''Anonymous users cannot access this resource'') 403), db)
                        else
                          (case next \<lparr>firebaseUser = decodedToken,
                                      userId = uid decodedToken,
                                      userEmail = email decodedToken,
                                      siteAdmin = isSiteAdmin svc (email decodedToken)\<rparr> db of
                             (Threw e, db') \<Rightarrow>
                               (Responded (json_response
                                  (errorResponse ''Invalid or expired Firebase token'') 401), db')
                           | (Responded r, db') \<Rightarrow> (Responded r, db')))
             | _ \<Rightarrow>
                 (Responded (json_response (errorResponse
                    ''Invalid authorization format. Use: Bearer <token>'') 401), db)))"

section \<open>Routing and the error handler (routes/index.ts, index.ts)\<close>

text \<open>\<open>app.onError\<close>: the answer does not depend on the error.\<close>

definition onError :: "js_error \<Rightarrow> response" where
  "onError err = json_response (errorResponse ''Internal server error'') 500"

text \<open>
  The routing framework is an external collaborator. Its dispatcher runs every handler
  and middleware of a matched chain under its own catch: an error thrown by one of them
  is handed to the application's error handler there, and the answer becomes the
  response, so that the promise of \<open>next()\<close> awaited by an earlier middleware is fulfilled,
  not rejected.
\<close>

definition dispatch ::
  "(database \<Rightarrow> outcome \<times> database) \<Rightarrow> database \<Rightarrow> outcome \<times> database" where
  "dispatch handler db =
     (case handler db of
        (Threw err, db') \<Rightarrow> (Responded (onError err), db')
      | (Responded r, db') \<Rightarrow> (Responded r, db'))"

text \<open>
  The four handlers of the history router, and the requests of the application that this
  development follows, once the framework has matched method and path: the public total
  and, behind the auth middleware, the four method and path pairs of the history routes.
\<close>

datatype history_route = GET_histories | POST_histories | PUT_history | DELETE_history

datatype route = Public_total | Authenticated history_route

definition historiesRouter ::
  "history_route \<Rightarrow> runtime \<Rightarrow> context \<Rightarrow> request \<Rightarrow> database \<Rightarrow> outcome \<times> database" where
  "historiesRouter r env c req db =
     (case r of
        GET_histories \<Rightarrow> historiesRouter_get env c req db
      | POST_histories \<Rightarrow> historiesRouter_post env c req db
      | PUT_history \<Rightarrow> historiesRouter_put env c req db
      | DELETE_history \<Rightarrow> historiesRouter_delete env c req db)"

text \<open>
  The user router is mounted at \<open>/users/:userId\<close> before the history router is mounted at
  \<open>/users/:userId/histories\<close>, and its one handler is registered for GET with the path
  \<open>/:userId\<close> below the mount point. A GET of \<open>/users/:userId/histories\<close> therefore
  matches that handler first; it answers without calling \<open>next()\<close>, so the list handler
  of the history router does not run. The route then binds the name \<open>userId\<close> to two
  path segments; which of them the framework hands to that handler is not fixed here, and
  \<open>param_userId\<close> stands for it. The other three requests match the history router only.
\<close>

definition authRoutes ::
  "history_route \<Rightarrow> runtime \<Rightarrow> context \<Rightarrow> request \<Rightarrow> database \<Rightarrow> outcome \<times> database" where
  "authRoutes r env c req db =
     (case r of
        GET_histories \<Rightarrow> usersRouter_get env c req db
      | _ \<Rightarrow> historiesRouter r env c req db)"

text \<open>
  The total is mounted without middleware; the user and history routes are mounted behind
  the auth middleware.
\<close>

definition routes ::
  "runtime \<Rightarrow> auth_service \<Rightarrow> route \<Rightarrow> request \<Rightarrow> database \<Rightarrow> outcome \<times> database" where
  "routes env svc r req db =
     (case r of
        Public_total \<Rightarrow> dispatch historiesTotalRouter_get db
      | Authenticated h \<Rightarrow>
          dispatch (firebaseAuthMiddleware svc req
                      (\<lambda>c. dispatch (authRoutes h env c req))) db)"

section \<open>Texts in the standard date-time format\<close>

text \<open>
  The texts \<open>YYYY-MM-DD\<close> and \<open>HH:mm:ss\<close> of a date and of a time of day, by which the
  properties of the datetime validator range over the strings of the standard format.
\<close>

definition date_text :: "nat \<Rightarrow> nat \<Rightarrow> nat \<Rightarrow> string" where
  "date_text y m d =
     pad_left 4 (show_nat y) @ ''-'' @ pad_left 2 (show_nat m) @ ''-'' @ pad_left 2 (show_nat d)"

definition time_text :: "nat \<Rightarrow> nat \<Rightarrow> nat \<Rightarrow> string" where
  "time_text h mi sec =
     pad_left 2 (show_nat h) @ '':'' @ pad_left 2 (show_nat mi) @ '':'' @ pad_left 2 (show_nat sec)"

section \<open>Sample inputs\<close>

text \<open>Concrete inputs at which the theorems below are instantiated.\<close>

definition sample_runtime :: runtime where
  "sample_runtime =
     \<lparr>date_fallback = (\<lambda>s. None), local_tza = (\<lambda>t. 0), js_now = 1705318200000,
      db_now = 1705318200000,
      db_uuid = [34, 34, 34, 34, 34, 34, 34, 34, 34, 34, 34, 34, 34, 34, 34, 34],
      timestamp_far = (\<lambda>t. None), timestamp_reread = (\<lambda>t. t)\<rparr>"

definition sample_context :: "context" where
  "sample_context =
     \<lparr>firebaseUser = \<lparr>uid = ''alice'', email = None\<rparr>, userId = ''alice'',
      userEmail = None, siteAdmin = False\<rparr>"

definition sample_database :: database where
  "sample_database =
     \<lparr>users = [\<lparr>u_firebase_uid = ''alice'', u_email = None, u_display_name = None,
                 u_created_at = None, u_updated_at = None\<rparr>,
               \<lparr>u_firebase_uid = ''bob'', u_email = None, u_display_name = None,
                 u_created_at = None, u_updated_at = None\<rparr>],
      histories = [\<lparr>s_id = [17, 17, 17, 17, 17, 17, 17, 17, 17, 17, 17, 17, 17, 17, 17, 17],
                     s_user_id = ''bob'', s_datetime = 1705276800000,
                     s_value = 4250, s_created_at = Some 1705276800000,
                     s_updated_at = Some 1705276800000\<rparr>],
      statements = []\<rparr>"

definition sample_request :: "string \<Rightarrow> string \<Rightarrow> json option \<Rightarrow> request" where
  "sample_request user history b =
     \<lparr>authorization = None, param_userId = user, param_historyId = history,
      query = (\<lambda>k. None), req_body = b\<rparr>"

definition sample_auth :: auth_service where
  "sample_auth =
     \<lparr>verifyIdToken = (\<lambda>t. if t = ''alice-token'' then Some \<lparr>uid = ''alice'', email = None\<rparr>
                            else if t = ''guest-token'' then Some \<lparr>uid = ''guest'', email = None\<rparr>
                            else None),
      isAnonymousUser = (\<lambda>d. uid d = ''guest''),
      isSiteAdmin = (\<lambda>e. e = Some ''root@example.com'')\<rparr>"

definition sample_next :: "context \<Rightarrow> database \<Rightarrow> outcome \<times> database" where
  "sample_next c db =
     historiesRouter_delete sample_runtime c
       (sample_request ''alice'' ''99999999-9999-9999-9999-999999999999'' None) db"

definition sample_owner :: "context" where
  "sample_owner =
     \<lparr>firebaseUser = \<lparr>uid = ''bob'', email = None\<rparr>, userId = ''bob'',
      userEmail = None, siteAdmin = False\<rparr>"






section \<open>Properties\<close>

subsection \<open>Pagination\<close>

lemma parseInt_50: "parseInt ''50'' = Some 50"
  by (simp add: parseInt_def is_white_space_def is_digit_def digit_value_def)

lemma parseInt_empty: "parseInt [] = None"
  by (simp add: parseInt_def)

lemmas parseInt_eval = parseInt_def is_white_space_def is_digit_def digit_value_def

text \<open>
  C1, as stated, lets every \<open>limit\<close> that parses to an integer at most 0 resolve to 1.
  The string \<open>0\<close> parses to 0, which is falsy, so the default 50 is taken before the clamp.
\<close>

theorem limit_zero_resolves_to_default:
  "parseInt ''0'' = Some 0 \<and> effective_limit (Some ''0'') = 50"
  by (simp add: parseInt_eval effective_limit_def or_string_def or_number_def
        DEFAULT_LIMIT_def MAX_LIMIT_def)

text \<open>
  C1 (amended). The effective limit of the history list, for every query input: an absent
  or non-numeric \<open>limit\<close> resolves to 50; a \<open>limit\<close> that parses to 0 resolves to 50
  as well; one that parses to a negative integer resolves to 1; one that parses to at least
  200 resolves to 200; any other is kept.
\<close>

theorem limit_resolution:
  "effective_limit q =
     (case q of
        None \<Rightarrow> 50
      | Some s \<Rightarrow>
          (case parseInt s of
             None \<Rightarrow> 50
           | Some n \<Rightarrow> if n = 0 then 50 else if n < 0 then 1 else if 200 \<le> n then 200 else n))"
proof (cases q)
  case None
  then show ?thesis
    by (simp add: effective_limit_def or_string_def or_number_def parseInt_50
          DEFAULT_LIMIT_def MAX_LIMIT_def)
next
  case (Some s)
  show ?thesis
  proof (cases "s = []")
    case True
    with Some show ?thesis
      by (simp add: effective_limit_def or_string_def or_number_def parseInt_50 parseInt_empty
            DEFAULT_LIMIT_def MAX_LIMIT_def)
  next
    case False
    with Some show ?thesis
      by (simp add: effective_limit_def or_string_def or_number_def DEFAULT_LIMIT_def
            MAX_LIMIT_def split: option.splits)
  qed
qed

theorem limit_resolution_witness:
  "effective_limit (Some ''-5'') = 1 \<and> effective_limit (Some ''abc'') = 50
     \<and> effective_limit (Some ''500'') = 200 \<and> effective_limit None = 50"
  using limit_resolution [of "Some ''-5''"] limit_resolution [of "Some ''abc''"]
    limit_resolution [of "Some ''500''"] limit_resolution [of None]
  by (simp add: parseInt_eval)

subsection \<open>Rendering and reading numbers\<close>

lemma is_digit_digit_char: "n < 10 \<Longrightarrow> is_digit (digit_char n)"
  by (simp add: is_digit_def digit_char_def)

lemma digit_value_digit_char: "n < 10 \<Longrightarrow> digit_value (digit_char n) = int n"
  by (simp add: digit_value_def digit_char_def)

lemma show_nat_digits: "list_all is_digit (show_nat n)"
proof (induction n rule: show_nat.induct)
  case (1 n)
  show ?case
  proof (cases "n < 10")
    case True
    then show ?thesis by (subst show_nat.simps) (simp add: is_digit_digit_char)
  next
    case False
    with 1 show ?thesis by (subst show_nat.simps) (simp add: is_digit_digit_char)
  qed
qed

lemma show_nat_not_Nil: "show_nat n \<noteq> []"
  by (subst show_nat.simps) simp

lemma digits_value_snoc: "digits_value a (xs @ [c]) = 10 * digits_value a xs + digit_value c"
  by (induction xs arbitrary: a) simp_all

lemma digits_value_show_nat: "digits_value 0 (show_nat n) = int n"
proof (induction n rule: show_nat.induct)
  case (1 n)
  show ?case
  proof (cases "n < 10")
    case True
    then show ?thesis by (subst show_nat.simps) (simp add: digit_value_digit_char)
  next
    case False
    with 1 have "digits_value 0 (show_nat (n div 10)) = int (n div 10)" by simp
    with False show ?thesis
      by (subst show_nat.simps) (simp add: digits_value_snoc digit_value_digit_char zdiv_int zmod_int)
  qed
qed

lemma length_show_nat_100:
  assumes "k < 100"
  shows "length (show_nat k) \<le> 2"
proof -
  from assms have "k div 10 < 10" by simp
  then have "show_nat (k div 10) = [digit_char (k div 10)]"
    by (subst show_nat.simps) simp
  then show ?thesis by (subst show_nat.simps) simp
qed

lemma digits_value_zeros: "digits_value 0 (replicate m (CHR ''0'') @ s) = digits_value 0 s"
  by (induction m) (simp_all add: digit_value_def)

lemma pad_left_digits: "list_all is_digit s \<Longrightarrow> list_all is_digit (pad_left w s)"
  by (auto simp: pad_left_def is_digit_def list_all_iff)

lemma digits_value_pad_left: "digits_value 0 (pad_left w s) = digits_value 0 s"
  by (simp add: pad_left_def digits_value_zeros)

lemma length_pad_left: "length s \<le> w \<Longrightarrow> length (pad_left w s) = w"
  by (simp add: pad_left_def)

lemma not_digit_point: "\<not> is_digit (CHR ''.'')"
  by (simp add: is_digit_def)

lemma takeWhile_digits: "list_all is_digit ds \<Longrightarrow> takeWhile is_digit (ds @ CHR ''.'' # fs) = ds"
  by (induction ds) (simp_all add: not_digit_point)

lemma dropWhile_digits: "list_all is_digit ds \<Longrightarrow> dropWhile is_digit (ds @ CHR ''.'' # fs) = CHR ''.'' # fs"
  by (induction ds) (simp_all add: not_digit_point)

lemma unsigned_decimal_render:
  assumes "b < 100"
  shows "unsigned_decimal (show_nat a @ ''.'' @ pad_left 2 (show_nat b)) = Some (of_nat a + of_nat b / 100)"
proof -
  have len: "length (pad_left 2 (show_nat b)) = 2"
    using assms by (simp add: length_pad_left length_show_nat_100)
  have dig: "list_all is_digit (pad_left 2 (show_nat b))"
    by (simp add: pad_left_digits show_nat_digits)
  show ?thesis
    by (simp add: unsigned_decimal_def takeWhile_digits dropWhile_digits show_nat_digits
          show_nat_not_Nil dig len digits_value_pad_left digits_value_show_nat)
qed

lemma show_nat_head: "\<exists>c cs. show_nat n = c # cs \<and> is_digit c"
  using show_nat_digits [of n] show_nat_not_Nil [of n] by (cases "show_nat n") auto

lemma Number_numeric_out: "Number (numeric_out h) = Some (of_int h / 100)"
proof -
  let ?a = "nat \<bar>h\<bar>"
  have mod: "?a mod 100 < 100" by simp
  have u: "unsigned_decimal (show_nat (?a div 100) @ ''.'' @ pad_left 2 (show_nat (?a mod 100)))
             = Some (of_nat (?a div 100) + of_nat (?a mod 100) / 100)"
    by (rule unsigned_decimal_render [OF mod])
  have split: "(of_nat (?a div 100) + of_nat (?a mod 100) / 100 :: rat) = of_nat ?a / 100"
  proof -
    have "?a = 100 * (?a div 100) + ?a mod 100" by simp
    then have "(of_nat ?a :: rat) = 100 * of_nat (?a div 100) + of_nat (?a mod 100)"
      by (metis of_nat_add of_nat_mult of_nat_numeral)
    then show ?thesis by (simp add: field_simps)
  qed
  show ?thesis
  proof (cases "h < 0")
    case True
    then have "(of_nat ?a :: rat) = - of_int h" by simp
    with True u split show ?thesis by (simp add: numeric_out_def Number_def)
  next
    case False
    then have a: "(of_nat ?a :: rat) = of_int h" by simp
    obtain c cs where c: "show_nat (?a div 100) = c # cs" "is_digit c"
      using show_nat_head by blast
    then have "c \<noteq> CHR ''-''" "c \<noteq> CHR ''+''" by (auto simp: is_digit_def)
    with False u split a c show ?thesis by (simp add: numeric_out_def Number_def)
  qed
qed


subsection \<open>Ownership\<close>

text \<open>
  C3. When the path \<open>userId\<close> differs from the authenticated uid and the requester is
  not a site admin, each of the four history operations (list, create, update, delete)
  answers 403 and leaves the storage, including the record of executed statements,
  as it was: no statement is run. The public total, for any request whatever (with or
  without an \<open>Authorization\<close> header; no middleware stands before it), answers 200
  with the total.
\<close>

theorem forbidden_without_storage_access:
  assumes "param_userId req \<noteq> userId c" and "\<not> siteAdmin c"
  shows "historiesRouter_get env c req db
           = (Responded (json_response (errorResponse ''Not authorized'') 403), db)
       \<and> historiesRouter_post env c req db
           = (Responded (json_response (errorResponse ''Not authorized'') 403), db)
       \<and> historiesRouter_put env c req db
           = (Responded (json_response (errorResponse ''Not authorized'') 403), db)
       \<and> historiesRouter_delete env c req db
           = (Responded (json_response (errorResponse ''Not authorized'') 403), db)
       \<and> routes env svc Public_total anyreq db
           = (Responded (json_response
                (successResponse (Total (Number (fst (select_total db))))) 200),
              executed SelectTotal db)"
  using assms
  by (simp add: historiesRouter_get_def historiesRouter_post_def historiesRouter_put_def
        historiesRouter_delete_def routes_def dispatch_def historiesTotalRouter_get_def
        select_total_def)

theorem forbidden_without_storage_access_witness:
  "historiesRouter_get sample_runtime sample_context
     (sample_request ''bob'' ''11111111-1111-1111-1111-111111111111'' None) sample_database
     = (Responded \<lparr>status = 403, body = errorResponse ''Not authorized''\<rparr>, sample_database)
   \<and> historiesRouter_delete sample_runtime sample_context
       (sample_request ''bob'' ''11111111-1111-1111-1111-111111111111'' None) sample_database
     = (Responded \<lparr>status = 403, body = errorResponse ''Not authorized''\<rparr>, sample_database)
   \<and> fst (routes sample_runtime sample_auth Public_total (sample_request [] [] None)
            sample_database)
     = Responded \<lparr>status = 200, body = successResponse (Total (Some (85 / 2)))\<rparr>"
  using forbidden_without_storage_access
    [where req = "sample_request ''bob'' ''11111111-1111-1111-1111-111111111111'' None" and c = sample_context
       and db = sample_database and env = sample_runtime and svc = sample_auth
       and anyreq = "sample_request [] [] None"]
  by (simp add: sample_context_def sample_request_def json_response_def select_total_def
        sample_database_def Number_numeric_out)

subsection \<open>Create: the empty datetime\<close>

lemma get_property_other: "get_property b k = Inr x \<Longrightarrow> \<exists>y. get_property b k' = Inr y"
  by (cases b) auto

text \<open>
  C10. A create request (authorization passed) whose body holds the empty string as
  \<open>datetime\<close> is answered with the missing-field message, whatever its \<open>value\<close>
  is (a valid one included), and not with the invalid-datetime message; the answer is the
  same for every runtime, so the datetime validator has no part in it. Nothing is stored.
\<close>

theorem create_empty_datetime_reported_missing:
  assumes "param_userId req = userId c \<or> siteAdmin c"
    and "req_body req = Some b"
    and "get_property b ''datetime'' = Inr (Some (JString []))"
  shows "historiesRouter_post env c req db
           = (Responded \<lparr>status = 400, body = errorResponse ''datetime and value are required''\<rparr>, db)
       \<and> ''datetime and value are required'' \<noteq> ''datetime must be a valid ISO 8601 date string''"
proof -
  obtain v where v: "get_property b ''value'' = Inr v"
    using get_property_other [OF assms(3)] by blast
  from assms v show ?thesis
    by (auto simp: historiesRouter_post_def req_json_def json_response_def)
qed

theorem create_empty_datetime_reported_missing_witness:
  "historiesRouter_post sample_runtime sample_context
     (sample_request ''alice'' [] (Some (JObject [(''datetime'', JString []), (''value'', JNumber 5)])))
     sample_database
   = (Responded \<lparr>status = 400, body = errorResponse ''datetime and value are required''\<rparr>,
      sample_database)"
  using create_empty_datetime_reported_missing
    [where req = "sample_request ''alice'' [] (Some (JObject [(''datetime'', JString []), (''value'', JNumber 5)]))"
       and c = sample_context and env = sample_runtime and db = sample_database
       and b = "JObject [(''datetime'', JString []), (''value'', JNumber 5)]"]
  by (simp add: sample_request_def sample_context_def)

subsection \<open>Identifiers\<close>

lemma uuid_in_absent:
  "uuid_in ''99999999-9999-9999-9999-999999999999''
     = Some [153, 153, 153, 153, 153, 153, 153, 153, 153, 153, 153, 153, 153, 153, 153, 153]"
  by code_simp

lemma uuid_in_stored:
  "uuid_in ''11111111-1111-1111-1111-111111111111''
     = Some [17, 17, 17, 17, 17, 17, 17, 17, 17, 17, 17, 17, 17, 17, 17, 17]"
  by code_simp


subsection \<open>The auth middleware\<close>

lemma split_space_not_Nil: "split_space s \<noteq> []"
  by (induction s) (auto split: list.splits)

lemma split_space_first:
  "split_space s = q # ps \<Longrightarrow>
     CHR '' '' \<notin> set q
     \<and> ((ps = [] \<and> s = q) \<or> (\<exists>r. s = q @ CHR '' '' # r \<and> split_space r = ps))"
proof (induction s arbitrary: q ps)
  case Nil
  then show ?case by simp
next
  case (Cons c cs)
  show ?case
  proof (cases "c = CHR '' ''")
    case True
    with Cons.prems show ?thesis by auto
  next
    case False
    with Cons.prems obtain p' where sp: "split_space cs = p' # ps" and q: "q = c # p'"
      by (auto split: list.splits simp: split_space_not_Nil)
    from Cons.IH [OF sp] q False show ?thesis by auto
  qed
qed

lemma split_space_two:
  assumes "split_space h = p # q # ps"
  shows "\<exists>rest. h = p @ CHR '' '' # q @ rest \<and> CHR '' '' \<notin> set q
           \<and> (rest = [] \<or> (\<exists>r. rest = CHR '' '' # r))"
proof -
  from split_space_first [OF assms] obtain r where h: "h = p @ CHR '' '' # r"
    and r: "split_space r = q # ps" by auto
  from split_space_first [OF r] have q: "CHR '' '' \<notin> set q"
    and "(ps = [] \<and> r = q) \<or> (\<exists>r'. r = q @ CHR '' '' # r' \<and> split_space r' = ps)" by auto
  then consider "r = q @ []" | r' where "r = q @ CHR '' '' # r'" by auto
  then show ?thesis
  proof cases
    case 1
    with h q show ?thesis by blast
  next
    case 2
    with h q show ?thesis by blast
  qed
qed

lemma split_space_no_space: "CHR '' '' \<notin> set q \<Longrightarrow> split_space q = [q]"
  by (induction q) auto

lemma split_space_append: "CHR '' '' \<notin> set p \<Longrightarrow> split_space (p @ CHR '' '' # s) = p # split_space s"
  by (induction p) auto

lemma split_space_bearer:
  assumes "CHR '' '' \<notin> set tok" and "rest = [] \<or> (\<exists>r. rest = CHR '' '' # r)"
  shows "\<exists>ps. split_space (''Bearer '' @ tok @ rest) = ''Bearer'' # tok # ps"
proof -
  have "split_space (''Bearer '' @ tok @ rest) = ''Bearer'' # split_space (tok @ rest)"
    using split_space_append [of "''Bearer''" "tok @ rest"] by simp
  moreover have "\<exists>ps. split_space (tok @ rest) = tok # ps"
    using assms split_space_append [of tok] by (auto simp: split_space_no_space)
  ultimately show ?thesis by auto
qed

lemma bearer_pieces:
  assumes "split_space h = ''Bearer'' # tok # ps" and "tok \<noteq> []"
  shows "\<exists>t rest. t \<noteq> [] \<and> CHR '' '' \<notin> set t \<and> (rest = [] \<or> (\<exists>r. rest = CHR '' '' # r))
           \<and> h = ''Bearer '' @ t @ rest"
proof -
  from split_space_two [OF assms(1)] obtain rest where "h = ''Bearer'' @ CHR '' '' # tok @ rest"
    and "CHR '' '' \<notin> set tok" and "rest = [] \<or> (\<exists>r. rest = CHR '' '' # r)" by blast
  with assms(2) show ?thesis by (intro exI [of _ tok] exI [of _ rest]) simp
qed

lemma middleware_rejects_format:
  assumes "authorization req = Some h"
    and "\<not> (\<exists>t rest. t \<noteq> [] \<and> CHR '' '' \<notin> set t \<and> (rest = [] \<or> (\<exists>r. rest = CHR '' '' # r))
              \<and> h = ''Bearer '' @ t @ rest)"
  shows "firebaseAuthMiddleware svc req next db
           = (Responded \<lparr>status = 401,
                body = errorResponse (if h = [] then ''Authorization header required''
                                      else ''Invalid authorization format. Use: Bearer <token>'')\<rparr>, db)"
proof (cases "h = []")
  case True
  with assms show ?thesis by (simp add: firebaseAuthMiddleware_def json_response_def)
next
  case False
  have "\<not> (\<exists>tok ps. split_space h = ''Bearer'' # tok # ps \<and> tok \<noteq> [])"
    using assms(2) bearer_pieces by blast
  with False assms(1) show ?thesis
    by (auto simp: firebaseAuthMiddleware_def json_response_def Let_def split: list.splits)
qed

lemma middleware_verifies:
  assumes "authorization req = Some (''Bearer '' @ tok @ rest)" and "tok \<noteq> []"
    and "CHR '' '' \<notin> set tok" and "rest = [] \<or> (\<exists>r. rest = CHR '' '' # r)"
  shows "firebaseAuthMiddleware svc req next db =
     (case verifyIdToken svc tok of
        None \<Rightarrow> (Responded \<lparr>status = 401, body = errorResponse ''Invalid or expired Firebase token''\<rparr>, db)
      | Some d \<Rightarrow>
          if isAnonymousUser svc d then
            (Responded \<lparr>status = 403, body = errorResponse ''Anonymous users cannot access this resource''\<rparr>, db)
          else
            (case next \<lparr>firebaseUser = d, userId = uid d, userEmail = email d,
                        siteAdmin = isSiteAdmin svc (email d)\<rparr> db of
               (Threw e, db') \<Rightarrow>
                 (Responded \<lparr>status = 401, body = errorResponse ''Invalid or expired Firebase token''\<rparr>, db')
             | (Responded r, db') \<Rightarrow> (Responded r, db')))"
proof -
  from split_space_bearer [OF assms(3,4)] obtain ps
    where sp: "split_space (''Bearer '' @ tok @ rest) = ''Bearer'' # tok # ps" by blast
  show ?thesis
    unfolding firebaseAuthMiddleware_def assms(1) option.case sp Let_def
    using assms(2) by (simp add: json_response_def split: option.splits prod.splits outcome.splits)
qed

lemma dispatch_absorbs:
  "(case dispatch h db of
      (Threw e, db') \<Rightarrow> (Responded x, db')
    | (Responded r, db') \<Rightarrow> (Responded r, db')) = dispatch h db"
  by (simp add: dispatch_def split: prod.splits outcome.splits)

lemma dispatch_dispatch: "dispatch (dispatch h) db = dispatch h db"
  by (simp add: dispatch_def split: prod.splits outcome.splits)

lemma routes_behind_middleware:
  assumes "authorization req = Some (''Bearer '' @ tok @ rest)" and "tok \<noteq> []"
    and "CHR '' '' \<notin> set tok" and "rest = [] \<or> (\<exists>r. rest = CHR '' '' # r)"
    and "verifyIdToken svc tok = Some d" and "\<not> isAnonymousUser svc d"
  shows "routes env svc (Authenticated rt) req db
           = dispatch (authRoutes rt env
               \<lparr>firebaseUser = d, userId = uid d, userEmail = email d,
                siteAdmin = isSiteAdmin svc (email d)\<rparr> req) db"
proof -
  let ?c = "\<lparr>firebaseUser = d, userId = uid d, userEmail = email d,
             siteAdmin = isSiteAdmin svc (email d)\<rparr>"
  let ?next = "\<lambda>c. dispatch (authRoutes rt env c req)"
  have mw: "firebaseAuthMiddleware svc req ?next = dispatch (authRoutes rt env ?c req)"
  proof
    fix db0
    show "firebaseAuthMiddleware svc req ?next db0 = dispatch (authRoutes rt env ?c req) db0"
      using middleware_verifies [OF assms(1-4), of svc ?next db0] assms(5,6)
      by (simp add: dispatch_absorbs)
  qed
  have "routes env svc (Authenticated rt) req db
      = dispatch (firebaseAuthMiddleware svc req ?next) db"
    by (simp add: routes_def)
  then show ?thesis by (simp add: mw dispatch_dispatch)
qed

text \<open>
  C9. The auth middleware, for every request. Without an \<open>Authorization\<close> header the
  answer is 401. A header has the form \<open>Bearer <token>\<close> when it is \<open>Bearer\<close>, one space
  and a non-empty token without a space, followed by nothing or by a space and anything
  (the middleware splits at spaces and reads the first two pieces). A header of any other
  form is answered 401, a second space after \<open>Bearer\<close> included. For a header of that form
  the token is verified: when the verification fails the answer is 401; when it yields an
  anonymous principal the answer is 403; when it yields any other principal the rest of
  the chain runs on the context holding the uid, the email (or none) and the site-admin
  flag of that email, and behind the routes the matched handler is dispatched on exactly
  that context.
\<close>

theorem auth_gate:
  "(authorization req = None \<longrightarrow>
      firebaseAuthMiddleware svc req downstream db
        = (Responded \<lparr>status = 401, body = errorResponse ''Authorization header required''\<rparr>, db))
   \<and> (authorization req = Some h
        \<and> \<not> (\<exists>t more. t \<noteq> [] \<and> CHR '' '' \<notin> set t
                  \<and> (more = [] \<or> (\<exists>r. more = CHR '' '' # r)) \<and> h = ''Bearer '' @ t @ more) \<longrightarrow>
      firebaseAuthMiddleware svc req downstream db
        = (Responded \<lparr>status = 401,
             body = errorResponse (if h = [] then ''Authorization header required''
                                   else ''Invalid authorization format. Use: Bearer <token>'')\<rparr>, db))
   \<and> (authorization req = Some (''Bearer '' @ tok @ rest) \<and> tok \<noteq> [] \<and> CHR '' '' \<notin> set tok
        \<and> (rest = [] \<or> (\<exists>r. rest = CHR '' '' # r)) \<longrightarrow>
      (verifyIdToken svc tok = None \<longrightarrow>
         firebaseAuthMiddleware svc req downstream db
           = (Responded \<lparr>status = 401,
                body = errorResponse ''Invalid or expired Firebase token''\<rparr>, db))
      \<and> (verifyIdToken svc tok = Some d \<and> isAnonymousUser svc d \<longrightarrow>
         firebaseAuthMiddleware svc req downstream db
           = (Responded \<lparr>status = 403,
                body = errorResponse ''Anonymous users cannot access this resource''\<rparr>, db))
      \<and> (verifyIdToken svc tok = Some d \<and> \<not> isAnonymousUser svc d \<longrightarrow>
         firebaseAuthMiddleware svc req downstream db
           = (case downstream \<lparr>firebaseUser = d, userId = uid d, userEmail = email d,
                         siteAdmin = isSiteAdmin svc (email d)\<rparr> db of
                (Threw e, db') \<Rightarrow>
                  (Responded \<lparr>status = 401,
                     body = errorResponse ''Invalid or expired Firebase token''\<rparr>, db')
              | (Responded r, db') \<Rightarrow> (Responded r, db'))
         \<and> routes env svc (Authenticated rt) req db
             = dispatch (authRoutes rt env
                 \<lparr>firebaseUser = d, userId = uid d, userEmail = email d,
                  siteAdmin = isSiteAdmin svc (email d)\<rparr> req) db))"
proof (intro conjI impI)
  assume "authorization req = None"
  then show "firebaseAuthMiddleware svc req downstream db
        = (Responded \<lparr>status = 401, body = errorResponse ''Authorization header required''\<rparr>, db)"
    by (simp add: firebaseAuthMiddleware_def json_response_def)
next
  assume "authorization req = Some h
        \<and> \<not> (\<exists>t more. t \<noteq> [] \<and> CHR '' '' \<notin> set t
                  \<and> (more = [] \<or> (\<exists>r. more = CHR '' '' # r)) \<and> h = ''Bearer '' @ t @ more)"
  then show "firebaseAuthMiddleware svc req downstream db
        = (Responded \<lparr>status = 401,
             body = errorResponse (if h = [] then ''Authorization header required''
                                   else ''Invalid authorization format. Use: Bearer <token>'')\<rparr>, db)"
    using middleware_rejects_format [of req h svc downstream db] by blast
next
  assume a: "authorization req = Some (''Bearer '' @ tok @ rest) \<and> tok \<noteq> [] \<and> CHR '' '' \<notin> set tok
        \<and> (rest = [] \<or> (\<exists>r. rest = CHR '' '' # r))"
    and v: "verifyIdToken svc tok = None"
  from a v show "firebaseAuthMiddleware svc req downstream db
           = (Responded \<lparr>status = 401,
                body = errorResponse ''Invalid or expired Firebase token''\<rparr>, db)"
    using middleware_verifies [of req tok rest svc downstream db] by simp
next
  assume a: "authorization req = Some (''Bearer '' @ tok @ rest) \<and> tok \<noteq> [] \<and> CHR '' '' \<notin> set tok
        \<and> (rest = [] \<or> (\<exists>r. rest = CHR '' '' # r))"
    and v: "verifyIdToken svc tok = Some d \<and> isAnonymousUser svc d"
  from a v show "firebaseAuthMiddleware svc req downstream db
        = (Responded \<lparr>status = 403,
             body = errorResponse ''Anonymous users cannot access this resource''\<rparr>, db)"
    using middleware_verifies [of req tok rest svc downstream db] by simp
next
  assume a: "authorization req = Some (''Bearer '' @ tok @ rest) \<and> tok \<noteq> [] \<and> CHR '' '' \<notin> set tok
        \<and> (rest = [] \<or> (\<exists>r. rest = CHR '' '' # r))"
    and v: "verifyIdToken svc tok = Some d \<and> \<not> isAnonymousUser svc d"
  from a v show "firebaseAuthMiddleware svc req downstream db
        = (case downstream \<lparr>firebaseUser = d, userId = uid d, userEmail = email d,
                      siteAdmin = isSiteAdmin svc (email d)\<rparr> db of
             (Threw e, db') \<Rightarrow>
               (Responded \<lparr>status = 401,
                  body = errorResponse ''Invalid or expired Firebase token''\<rparr>, db')
           | (Responded r, db') \<Rightarrow> (Responded r, db'))"
    using middleware_verifies [of req tok rest svc downstream db] by simp
next
  assume a: "authorization req = Some (''Bearer '' @ tok @ rest) \<and> tok \<noteq> [] \<and> CHR '' '' \<notin> set tok
        \<and> (rest = [] \<or> (\<exists>r. rest = CHR '' '' # r))"
    and v: "verifyIdToken svc tok = Some d \<and> \<not> isAnonymousUser svc d"
  from a v show "routes env svc (Authenticated rt) req db
          = dispatch (authRoutes rt env
              \<lparr>firebaseUser = d, userId = uid d, userEmail = email d,
               siteAdmin = isSiteAdmin svc (email d)\<rparr> req) db"
    using routes_behind_middleware [of req tok rest svc d env rt db] by blast
qed

theorem auth_gate_witness:
  "firebaseAuthMiddleware sample_auth (sample_request ''alice'' [] None) sample_next sample_database
     = (Responded \<lparr>status = 401, body = errorResponse ''Authorization header required''\<rparr>,
        sample_database)
   \<and> firebaseAuthMiddleware sample_auth
       ((sample_request ''alice'' [] None)\<lparr>authorization := Some ''Basic abc123''\<rparr>)
       sample_next sample_database
     = (Responded \<lparr>status = 401,
          body = errorResponse ''Invalid authorization format. Use: Bearer <token>''\<rparr>,
        sample_database)
   \<and> firebaseAuthMiddleware sample_auth
       ((sample_request ''alice'' [] None)\<lparr>authorization := Some ''Bearer  alice-token''\<rparr>)
       sample_next sample_database
     = (Responded \<lparr>status = 401,
          body = errorResponse ''Invalid authorization format. Use: Bearer <token>''\<rparr>,
        sample_database)
   \<and> firebaseAuthMiddleware sample_auth
       ((sample_request ''alice'' [] None)\<lparr>authorization := Some ''Bearer stale-token''\<rparr>)
       sample_next sample_database
     = (Responded \<lparr>status = 401, body = errorResponse ''Invalid or expired Firebase token''\<rparr>,
        sample_database)
   \<and> firebaseAuthMiddleware sample_auth
       ((sample_request ''alice'' [] None)\<lparr>authorization := Some ''Bearer guest-token''\<rparr>)
       sample_next sample_database
     = (Responded \<lparr>status = 403,
          body = errorResponse ''Anonymous users cannot access this resource''\<rparr>,
        sample_database)
   \<and> firebaseAuthMiddleware sample_auth
       ((sample_request ''alice'' [] None)\<lparr>authorization := Some ''Bearer alice-token and more''\<rparr>)
       sample_next sample_database
     = (Responded \<lparr>status = 404, body = errorResponse ''History not found''\<rparr>,
        executed DeleteHistories sample_database)"
proof -
  let ?r = "sample_request ''alice'' [] None"
  have 1: "authorization ?r = None" by (simp add: sample_request_def)
  have 2: "authorization (?r\<lparr>authorization := Some ''Basic abc123''\<rparr>) = Some ''Basic abc123''
           \<and> \<not> (\<exists>t more. t \<noteq> [] \<and> CHR '' '' \<notin> set t
                  \<and> (more = [] \<or> (\<exists>r. more = CHR '' '' # r))
                  \<and> ''Basic abc123'' = ''Bearer '' @ t @ more)" by simp
  have 3: "authorization (?r\<lparr>authorization := Some ''Bearer  alice-token''\<rparr>)
             = Some ''Bearer  alice-token''
           \<and> \<not> (\<exists>t more. t \<noteq> [] \<and> CHR '' '' \<notin> set t
                  \<and> (more = [] \<or> (\<exists>r. more = CHR '' '' # r))
                  \<and> ''Bearer  alice-token'' = ''Bearer '' @ t @ more)"
    by (auto simp: Cons_eq_append_conv)
  have 4: "authorization (?r\<lparr>authorization := Some ''Bearer stale-token''\<rparr>)
             = Some (''Bearer '' @ ''stale-token'' @ [])
           \<and> ''stale-token'' \<noteq> [] \<and> CHR '' '' \<notin> set ''stale-token''
           \<and> ([] = [] \<or> (\<exists>r. [] = CHR '' '' # r))
           \<and> verifyIdToken sample_auth ''stale-token'' = None"
    by (simp add: sample_auth_def)
  have 5: "authorization (?r\<lparr>authorization := Some ''Bearer guest-token''\<rparr>)
             = Some (''Bearer '' @ ''guest-token'' @ [])
           \<and> ''guest-token'' \<noteq> [] \<and> CHR '' '' \<notin> set ''guest-token''
           \<and> ([] = [] \<or> (\<exists>r. [] = CHR '' '' # r))
           \<and> verifyIdToken sample_auth ''guest-token'' = Some \<lparr>uid = ''guest'', email = None\<rparr>
           \<and> isAnonymousUser sample_auth \<lparr>uid = ''guest'', email = None\<rparr>"
    by (simp add: sample_auth_def)
  have 6: "authorization (?r\<lparr>authorization := Some ''Bearer alice-token and more''\<rparr>)
             = Some (''Bearer '' @ ''alice-token'' @ '' and more'')
           \<and> ''alice-token'' \<noteq> [] \<and> CHR '' '' \<notin> set ''alice-token''
           \<and> ('' and more'' = [] \<or> (\<exists>r. '' and more'' = CHR '' '' # r))
           \<and> verifyIdToken sample_auth ''alice-token'' = Some \<lparr>uid = ''alice'', email = None\<rparr>
           \<and> \<not> isAnonymousUser sample_auth \<lparr>uid = ''alice'', email = None\<rparr>"
    by (simp add: sample_auth_def)
  have nx: "sample_next \<lparr>firebaseUser = \<lparr>uid = ''alice'', email = None\<rparr>, userId = ''alice'',
               userEmail = None, siteAdmin = isSiteAdmin sample_auth None\<rparr> sample_database
            = (Responded \<lparr>status = 404, body = errorResponse ''History not found''\<rparr>,
               executed DeleteHistories sample_database)"
    by (simp add: sample_next_def historiesRouter_delete_def sample_request_def delete_histories_def
          uuid_in_absent sample_database_def json_response_def executed_def)
  note g = auth_gate [where svc = sample_auth and downstream = sample_next and db = sample_database]
  from g [where req = ?r] 1
  have a: "firebaseAuthMiddleware sample_auth ?r sample_next sample_database
     = (Responded \<lparr>status = 401, body = errorResponse ''Authorization header required''\<rparr>,
        sample_database)" by blast
  from g [where req = "?r\<lparr>authorization := Some ''Basic abc123''\<rparr>" and h = "''Basic abc123''"] 2
  have b: "firebaseAuthMiddleware sample_auth (?r\<lparr>authorization := Some ''Basic abc123''\<rparr>)
       sample_next sample_database
     = (Responded \<lparr>status = 401,
          body = errorResponse ''Invalid authorization format. Use: Bearer <token>''\<rparr>,
        sample_database)" by simp
  from g [where req = "?r\<lparr>authorization := Some ''Bearer  alice-token''\<rparr>"
            and h = "''Bearer  alice-token''"] 3
  have c: "firebaseAuthMiddleware sample_auth (?r\<lparr>authorization := Some ''Bearer  alice-token''\<rparr>)
       sample_next sample_database
     = (Responded \<lparr>status = 401,
          body = errorResponse ''Invalid authorization format. Use: Bearer <token>''\<rparr>,
        sample_database)" by simp
  from g [where req = "?r\<lparr>authorization := Some ''Bearer stale-token''\<rparr>" and tok = "''stale-token''"
            and rest = "[]"] 4
  have d: "firebaseAuthMiddleware sample_auth (?r\<lparr>authorization := Some ''Bearer stale-token''\<rparr>)
       sample_next sample_database
     = (Responded \<lparr>status = 401, body = errorResponse ''Invalid or expired Firebase token''\<rparr>,
        sample_database)" by blast
  from g [where req = "?r\<lparr>authorization := Some ''Bearer guest-token''\<rparr>" and tok = "''guest-token''"
            and rest = "[]" and d = "\<lparr>uid = ''guest'', email = None\<rparr>"] 5
  have e: "firebaseAuthMiddleware sample_auth (?r\<lparr>authorization := Some ''Bearer guest-token''\<rparr>)
       sample_next sample_database
     = (Responded \<lparr>status = 403,
          body = errorResponse ''Anonymous users cannot access this resource''\<rparr>,
        sample_database)" by blast
  from g [where req = "?r\<lparr>authorization := Some ''Bearer alice-token and more''\<rparr>"
            and tok = "''alice-token''" and rest = "'' and more''"
            and d = "\<lparr>uid = ''alice'', email = None\<rparr>"] 6
  have f: "firebaseAuthMiddleware sample_auth
       (?r\<lparr>authorization := Some ''Bearer alice-token and more''\<rparr>)
       sample_next sample_database
     = (Responded \<lparr>status = 404, body = errorResponse ''History not found''\<rparr>,
        executed DeleteHistories sample_database)"
    by (simp add: nx)
  from a b c d e f show ?thesis by blast
qed

subsection \<open>The datetime validator\<close>

lemma iso_not_a_date: "iso_parse tza ''not-a-date'' = None"
  by (simp add: iso_parse_def parse_date_def parse_year_def digits_n_def is_digit_def)


lemmas date_eval = iso_parse_def parse_date_def parse_year_def parse_time_def parse_zone_def
  digits_n_def is_digit_def digit_value_def days_in_month_def InLeapYear_def MakeDay_def
  DayFromYear_def days_before_month_def legal_time_def msPerDay_def

lemma iso_full: "iso_parse tza ''2024-01-15T10:30:00.000Z'' = Some 1705314600000"
  by (simp add: date_eval)

lemma iso_date_only: "iso_parse tza ''2024-01-15'' = Some 1705276800000"
  by (simp add: date_eval)

lemma iso_local: "iso_parse tza ''2024-01-15T10:30:00'' = Some (1705314600000 - tza 1705314600000)"
  by (simp add: date_eval)

lemma length_show_nat: "n < 10 ^ k \<Longrightarrow> 0 < k \<Longrightarrow> length (show_nat n) \<le> k"
proof (induction n arbitrary: k rule: show_nat.induct)
  case (1 n)
  show ?case
  proof (cases "n < 10")
    case True
    with 1(3) show ?thesis by (simp add: show_nat.simps [of n])
  next
    case False
    then obtain j where k: "k = Suc j" and j: "0 < j"
      using 1(2,3) by (cases k; cases "k - 1") auto
    from 1(2) k have "n div 10 < 10 ^ j" by (simp add: less_mult_imp_div_less mult.commute)
    from 1(1) [OF False this j] False k show ?thesis by (simp add: show_nat.simps [of n])
  qed
qed

lemma digits_n_pad:
  assumes "n < 10 ^ k" and "0 < k"
  shows "digits_n k (pad_left k (show_nat n) @ rest) = Some (int n, rest)"
proof -
  have len: "length (pad_left k (show_nat n)) = k"
    using length_show_nat [OF assms] by (rule length_pad_left)
  have dig: "list_all is_digit (pad_left k (show_nat n))"
    by (rule pad_left_digits) (rule show_nat_digits)
  have val: "digits_value 0 (pad_left k (show_nat n)) = int n"
    by (simp add: digits_value_pad_left digits_value_show_nat)
  from len dig val show ?thesis by (simp add: digits_n_def)
qed

lemma pad_left_head:
  assumes "n < 10 ^ k" and "0 < k"
  shows "\<exists>c cs. pad_left k (show_nat n) = c # cs \<and> is_digit c"
proof -
  have len: "length (pad_left k (show_nat n)) = k"
    using length_show_nat [OF assms] by (rule length_pad_left)
  with assms(2) obtain c cs where c: "pad_left k (show_nat n) = c # cs"
    by (cases "pad_left k (show_nat n)") auto
  have "list_all is_digit (pad_left k (show_nat n))"
    by (rule pad_left_digits) (rule show_nat_digits)
  with c show ?thesis by simp
qed

lemma parse_year_pad:
  assumes "y < 10000"
  shows "parse_year (pad_left 4 (show_nat y) @ rest) = Some (int y, rest)"
proof -
  from assms have y: "y < 10 ^ 4" by simp
  from pad_left_head [OF y] obtain c cs where c: "pad_left 4 (show_nat y) = c # cs" "is_digit c"
    by auto
  from c(2) have ne: "c \<noteq> CHR ''+''" "c \<noteq> CHR ''-''" by (auto simp: is_digit_def)
  have "parse_year (pad_left 4 (show_nat y) @ rest) = digits_n 4 (pad_left 4 (show_nat y) @ rest)"
    using ne by (simp add: parse_year_def c(1))
  also have "\<dots> = Some (int y, rest)" by (rule digits_n_pad [OF y]) simp
  finally show ?thesis .
qed

lemma digits_n_two: "n < 100 \<Longrightarrow> digits_n 2 (pad_left 2 (show_nat n) @ rest) = Some (int n, rest)"
  using digits_n_pad [of n 2 rest] by simp

lemma digits_n_three: "n < 1000 \<Longrightarrow> digits_n 3 (pad_left 3 (show_nat n) @ rest) = Some (int n, rest)"
  using digits_n_pad [of n 3 rest] by simp

lemma parse_date_text:
  assumes "y < 10000" and "m < 100" and "d < 100"
  shows "parse_date (date_text y m d @ rest) = Some (int y, int m, int d, rest)"
  using assms
  by (simp add: parse_date_def date_text_def parse_year_pad digits_n_two)

lemma parse_time_text:
  assumes "h < 100" and "mi < 100" and "sec < 100"
  shows "parse_time (time_text h mi sec @ rest)
           = (case rest of
                [] \<Rightarrow> Some (int h, int mi, int sec, 0, [])
              | c # r \<Rightarrow>
                  if c = CHR ''.'' then
                    (case digits_n 3 r of
                       None \<Rightarrow> None
                     | Some (ms, r') \<Rightarrow> Some (int h, int mi, int sec, ms, r'))
                  else Some (int h, int mi, int sec, 0, rest))"
  using assms
  by (simp add: parse_time_def time_text_def digits_n_two split: list.splits)


lemma DayFromYear_bounds:
  assumes "0 \<le> y" and "y \<le> 9999"
  shows "- 720000 \<le> DayFromYear y" and "DayFromYear y \<le> 2940000"
proof -
  define a b c where "a = (y - 1969) div 4" and "b = (y - 1901) div 100"
    and "c = (y - 1601) div 400"
  have a: "- 493 \<le> a" "a \<le> 2008" using assms unfolding a_def by linarith+
  have b: "- 20 \<le> b" "b \<le> 81" using assms unfolding b_def by linarith+
  have c: "- 5 \<le> c" "c \<le> 21" using assms unfolding c_def by linarith+
  have d: "DayFromYear y = 365 * (y - 1970) + a - b + c"
    by (simp add: DayFromYear_def a_def b_def c_def)
  from a b c assms show "- 720000 \<le> DayFromYear y" unfolding d by simp
  from a b c assms show "DayFromYear y \<le> 2940000" unfolding d by simp
qed

lemma days_before_month_bounds:
  assumes "1 \<le> m" and "m \<le> 12"
  shows "0 \<le> days_before_month y m" and "days_before_month y m \<le> 335"
proof -
  from assms have "m = 1 \<or> m = 2 \<or> m = 3 \<or> m = 4 \<or> m = 5 \<or> m = 6 \<or> m = 7 \<or> m = 8
      \<or> m = 9 \<or> m = 10 \<or> m = 11 \<or> m = 12" by presburger
  then show "0 \<le> days_before_month y m" and "days_before_month y m \<le> 335"
    by (auto simp: days_before_month_def)
qed

lemma days_in_month_le: "days_in_month y m \<le> 31"
  by (simp add: days_in_month_def)

lemma MakeDay_bounds:
  assumes "0 \<le> y" and "y \<le> 9999" and "1 \<le> m" and "m \<le> 12" and "1 \<le> d"
    and "d \<le> days_in_month y m"
  shows "- 720000 \<le> MakeDay y m d" and "MakeDay y m d \<le> 2941000"
  using DayFromYear_bounds [OF assms(1,2)] days_before_month_bounds [OF assms(3,4), of y]
    assms(5,6) days_in_month_le [of y m]
  by (simp_all add: MakeDay_def)


lemma digits_n_digit: "0 < n \<Longrightarrow> digits_n n s = Some x \<Longrightarrow> list_ex is_digit s"
proof -
  assume n: "0 < n" and d: "digits_n n s = Some x"
  then have len: "n \<le> length s" and all: "list_all is_digit (take n s)"
    by (auto simp: digits_n_def split: if_splits)
  from n len obtain c cs where s: "s = c # cs" by (cases s) auto
  with n all have "is_digit c" by (cases n) auto
  with s show ?thesis by simp
qed

lemma parse_year_digit: "parse_year s = Some x \<Longrightarrow> list_ex is_digit s"
  by (auto simp: parse_year_def split: list.splits if_splits option.splits
        dest: digits_n_digit [rotated])

lemma iso_no_digit: "\<not> list_ex is_digit s \<Longrightarrow> iso_parse tza s = None"
  using parse_year_digit [of s]
  by (cases "parse_year s") (auto simp: iso_parse_def parse_date_def)

lemma iso_date_text:
  assumes "y \<le> 9999" and "1 \<le> m" and "m \<le> 12" and "1 \<le> d"
    and "int d \<le> days_in_month (int y) (int m)"
  shows "iso_parse tza (date_text y m d) = Some (MakeDay (int y) (int m) (int d) * msPerDay)"
proof -
  from assms(5) days_in_month_le [of "int y" "int m"] have d: "d < 100" by linarith
  from assms have "parse_date (date_text y m d @ []) = Some (int y, int m, int d, [])"
    using d by (intro parse_date_text) auto
  with assms show ?thesis by (simp add: iso_parse_def)
qed

lemma iso_date_time_text:
  assumes "y \<le> 9999" and "1 \<le> m" and "m \<le> 12" and "1 \<le> d"
    and "int d \<le> days_in_month (int y) (int m)"
    and "h \<le> 23" and "mi \<le> 59" and "sec \<le> 59"
    and "parse_time (time_text h mi sec @ rest) = Some (int h, int mi, int sec, ms, zone)"
  shows "iso_parse tza (date_text y m d @ ''T'' @ time_text h mi sec @ rest)
           = (let t = MakeDay (int y) (int m) (int d) * msPerDay
                        + ((int h * 60 + int mi) * 60 + int sec) * 1000 + ms
              in case parse_zone zone of
                   None \<Rightarrow> None
                 | Some None \<Rightarrow> Some (t - tza t)
                 | Some (Some off) \<Rightarrow> Some (t - off * 60000))"
proof -
  from assms(5) days_in_month_le [of "int y" "int m"] have d: "d < 100" by linarith
  from assms have "parse_date (date_text y m d @ (CHR ''T'' # time_text h mi sec @ rest))
      = Some (int y, int m, int d, CHR ''T'' # time_text h mi sec @ rest)"
    using d by (intro parse_date_text) auto
  with assms show ?thesis by (simp add: iso_parse_def legal_time_def)
qed

lemma instant_in_range:
  assumes "y \<le> 9999" and "1 \<le> m" and "m \<le> 12" and "1 \<le> d"
    and "int d \<le> days_in_month (int y) (int m)"
    and "0 \<le> x" and "x \<le> 2 * msPerDay"
  shows "\<bar>MakeDay (int y) (int m) (int d) * msPerDay + x\<bar> \<le> 8640000000000000 - msPerDay"
proof -
  have "- 720000 \<le> MakeDay (int y) (int m) (int d)" "MakeDay (int y) (int m) (int d) \<le> 2941000"
    using assms by (auto intro!: MakeDay_bounds)
  with assms(6,7) show ?thesis by (simp add: msPerDay_def)
qed

lemma valid_iff_in_range:
  "iso_parse (local_tza env) s = Some t \<Longrightarrow>
     new_Date env s = (if \<bar>t\<bar> \<le> 8640000000000000 then Some t else None)"
  by (simp add: new_Date_def Date_parse_def TimeClip_def)

lemma date_text_sample: "date_text 2024 2 29 = ''2024-02-29''"
  by code_simp

lemma time_text_sample: "time_text 23 59 59 = ''23:59:59''"
  by code_simp

lemma iso_no_such_day: "iso_parse tza ''2023-02-29'' = None"
  by (simp add: date_eval)

lemma iso_no_such_month: "iso_parse tza ''2024-99-99'' = None"
  by (simp add: date_eval)

lemma fallback_needs_digit:
  assumes "\<forall>s. date_fallback env s \<noteq> None \<longrightarrow> list_ex is_digit s"
    and "\<not> list_ex is_digit s" and "iso_parse (local_tza env) s = None"
  shows "\<not> isValidDatetime env s"
proof -
  from assms(1,2) have "date_fallback env s = None" by blast
  with assms(3) show ?thesis by (simp add: isValidDatetime_def new_Date_def Date_parse_def)
qed

lemma valid_date_time_text:
  assumes tz: "\<forall>t. \<bar>local_tza env t\<bar> \<le> msPerDay"
    and "y \<le> 9999" and "1 \<le> m" and "m \<le> 12" and "1 \<le> d"
    and "int d \<le> days_in_month (int y) (int m)"
    and "h \<le> 23" and "mi \<le> 59" and "sec \<le> 59" and "0 \<le> ms" and "ms \<le> 999"
    and "parse_time (time_text h mi sec @ rest) = Some (int h, int mi, int sec, ms, zone)"
    and "zone = [] \<or> zone = ''Z''"
  shows "new_Date env (date_text y m d @ ''T'' @ time_text h mi sec @ rest)
           = (let t = MakeDay (int y) (int m) (int d) * msPerDay
                        + ((int h * 60 + int mi) * 60 + int sec) * 1000 + ms
              in Some (if zone = [] then t - local_tza env t else t))"
proof -
  let ?x = "((int h * 60 + int mi) * 60 + int sec) * 1000 + ms"
  let ?t = "MakeDay (int y) (int m) (int d) * msPerDay
              + ((int h * 60 + int mi) * 60 + int sec) * 1000 + ms"
  from assms(7-11) have x: "0 \<le> ?x" "?x \<le> 2 * msPerDay" by (simp_all add: msPerDay_def)
  have teq: "?t = MakeDay (int y) (int m) (int d) * msPerDay + ?x" by simp
  have r: "\<bar>?t\<bar> \<le> 8640000000000000 - msPerDay"
    unfolding teq by (rule instant_in_range [OF assms(2-6) x])
  from tz have z: "\<bar>local_tza env ?t\<bar> \<le> msPerDay" by blast
  have "iso_parse (local_tza env) (date_text y m d @ ''T'' @ time_text h mi sec @ rest)
      = (case parse_zone zone of
           None \<Rightarrow> None
         | Some None \<Rightarrow> Some (?t - local_tza env ?t)
         | Some (Some off) \<Rightarrow> Some (?t - off * 60000))"
    using iso_date_time_text [OF assms(2-9) assms(12), of "local_tza env"]
    unfolding Let_def .
  with assms(13) have iso: "iso_parse (local_tza env)
        (date_text y m d @ ''T'' @ time_text h mi sec @ rest)
      = Some (if zone = [] then ?t - local_tza env ?t else ?t)"
    by (auto simp: parse_zone_def)
  from r z have "\<bar>if zone = [] then ?t - local_tza env ?t else ?t\<bar> \<le> 8640000000000000"
    by (auto simp: msPerDay_def)
  then show ?thesis
    using valid_iff_in_range [OF iso] unfolding Let_def by metis
qed

text \<open>
  C8. \<open>isValidDatetime\<close> accepts a string exactly when it parses to an instant within
  the range of a date: a string of the standard date-time format by the instant that the
  format gives it, any other string by what the implementation's own fallback makes of it.
  Every date alone \<open>YYYY-MM-DD\<close> of a day that its month has is accepted (and is the
  start of that day in UTC), and so is every such date followed by \<open>T\<close> and a time of day
  \<open>HH:mm:ss\<close>, with or without milliseconds and with or without the zone marker \<open>Z\<close>
  (without it the text is local time, for a local offset of at most a day). A string of
  neither kind, that is one outside the format that the fallback does not recognise, is
  rejected; for a fallback that recognises no string without a decimal digit, every
  string without a digit is rejected, the empty string and \<open>not-a-date\<close> among them.
\<close>

theorem isValidDatetime_accepts_and_rejects:
  assumes fb: "\<forall>s. date_fallback env s \<noteq> None \<longrightarrow> list_ex is_digit s"
    and tz: "\<forall>t. \<bar>local_tza env t\<bar> \<le> msPerDay"
  shows
   "(iso_parse (local_tza env) s = Some t \<longrightarrow>
       (isValidDatetime env s \<longleftrightarrow> \<bar>t\<bar> \<le> 8640000000000000))
    \<and> (iso_parse (local_tza env) s = None \<longrightarrow>
         (isValidDatetime env s
            \<longleftrightarrow> (\<exists>u. date_fallback env s = Some u \<and> \<bar>u\<bar> \<le> 8640000000000000)))
    \<and> (\<not> list_ex is_digit s \<longrightarrow> \<not> isValidDatetime env s)
    \<and> (y \<le> 9999 \<and> 1 \<le> m \<and> m \<le> 12 \<and> 1 \<le> d \<and> int d \<le> days_in_month (int y) (int m) \<longrightarrow>
         new_Date env (date_text y m d) = Some (MakeDay (int y) (int m) (int d) * msPerDay)
         \<and> isValidDatetime env (date_text y m d)
         \<and> (h \<le> 23 \<and> mi \<le> 59 \<and> sec \<le> 59 \<longrightarrow>
              isValidDatetime env (date_text y m d @ ''T'' @ time_text h mi sec)
              \<and> new_Date env (date_text y m d @ ''T'' @ time_text h mi sec @ ''Z'')
                  = Some (MakeDay (int y) (int m) (int d) * msPerDay
                            + ((int h * 60 + int mi) * 60 + int sec) * 1000)
              \<and> isValidDatetime env (date_text y m d @ ''T'' @ time_text h mi sec @ ''Z'')
              \<and> (ms \<le> 999 \<longrightarrow>
                   isValidDatetime env
                     (date_text y m d @ ''T'' @ time_text h mi sec @ ''.'' @ pad_left 3 (show_nat ms))
                   \<and> new_Date env
                       (date_text y m d @ ''T'' @ time_text h mi sec @ ''.''
                          @ pad_left 3 (show_nat ms) @ ''Z'')
                       = Some (MakeDay (int y) (int m) (int d) * msPerDay
                                 + ((int h * 60 + int mi) * 60 + int sec) * 1000 + int ms)
                   \<and> isValidDatetime env
                       (date_text y m d @ ''T'' @ time_text h mi sec @ ''.''
                          @ pad_left 3 (show_nat ms) @ ''Z''))))
    \<and> \<not> isValidDatetime env ''not-a-date''
    \<and> \<not> isValidDatetime env []
    \<and> isValidDatetime env ''2024-01-15T10:30:00.000Z''
    \<and> isValidDatetime env ''2024-01-15''
    \<and> isValidDatetime env ''2024-01-15T10:30:00''"
proof -
  have A: "isValidDatetime env s \<longleftrightarrow> \<bar>t\<bar> \<le> 8640000000000000"
    if "iso_parse (local_tza env) s = Some t"
    using valid_iff_in_range [OF that] by (simp add: isValidDatetime_def)
  have B: "isValidDatetime env s
            \<longleftrightarrow> (\<exists>u. date_fallback env s = Some u \<and> \<bar>u\<bar> \<le> 8640000000000000)"
    if "iso_parse (local_tza env) s = None"
    using that
    by (cases "date_fallback env s")
       (auto simp: isValidDatetime_def new_Date_def Date_parse_def TimeClip_def)
  have C: "\<not> isValidDatetime env s" if "\<not> list_ex is_digit s" for s
    by (rule fallback_needs_digit [OF fb that]) (rule iso_no_digit [OF that])
  have D: "new_Date env (date_text y m d) = Some (MakeDay (int y) (int m) (int d) * msPerDay)"
    if "y \<le> 9999 \<and> 1 \<le> m \<and> m \<le> 12 \<and> 1 \<le> d \<and> int d \<le> days_in_month (int y) (int m)"
  proof -
    from that have *: "y \<le> 9999" "1 \<le> m" "m \<le> 12" "1 \<le> d"
      "int d \<le> days_in_month (int y) (int m)" by blast+
    have "\<bar>MakeDay (int y) (int m) (int d) * msPerDay + 0\<bar> \<le> 8640000000000000 - msPerDay"
      by (rule instant_in_range [OF *]) (simp_all add: msPerDay_def)
    then show ?thesis
      using valid_iff_in_range [OF iso_date_text [OF *, of "local_tza env"]]
      by (simp add: msPerDay_def)
  qed
  have E: "new_Date env (date_text y m d @ ''T'' @ time_text h mi sec @ rest)
           = Some (if zone = [] then MakeDay (int y) (int m) (int d) * msPerDay
                        + ((int h * 60 + int mi) * 60 + int sec) * 1000 + k
                        - local_tza env (MakeDay (int y) (int m) (int d) * msPerDay
                            + ((int h * 60 + int mi) * 60 + int sec) * 1000 + k)
                   else MakeDay (int y) (int m) (int d) * msPerDay
                        + ((int h * 60 + int mi) * 60 + int sec) * 1000 + k)"
    if "y \<le> 9999 \<and> 1 \<le> m \<and> m \<le> 12 \<and> 1 \<le> d \<and> int d \<le> days_in_month (int y) (int m)"
      and "h \<le> 23 \<and> mi \<le> 59 \<and> sec \<le> 59"
      and "0 \<le> k" and "k \<le> 999"
      and "parse_time (time_text h mi sec @ rest) = Some (int h, int mi, int sec, k, zone)"
      and "zone = [] \<or> zone = ''Z''"
    for rest zone k
  proof -
    from that(1) have *: "y \<le> 9999" "1 \<le> m" "m \<le> 12" "1 \<le> d"
      "int d \<le> days_in_month (int y) (int m)" by blast+
    from that(2) have **: "h \<le> 23" "mi \<le> 59" "sec \<le> 59" by blast+
    show ?thesis
      using valid_date_time_text [OF tz * ** that(3,4,5,6)] by (simp add: Let_def)
  qed
  have pt: "h < 100" "mi < 100" "sec < 100" if "h \<le> 23 \<and> mi \<le> 59 \<and> sec \<le> 59"
    using that by auto
  have F1: "isValidDatetime env (date_text y m d @ ''T'' @ time_text h mi sec)"
    if a: "y \<le> 9999 \<and> 1 \<le> m \<and> m \<le> 12 \<and> 1 \<le> d \<and> int d \<le> days_in_month (int y) (int m)"
      and b: "h \<le> 23 \<and> mi \<le> 59 \<and> sec \<le> 59"
    using E [OF a b, of 0 "[]" "[]"] parse_time_text [OF pt [OF b], of "[]"]
    by (simp add: isValidDatetime_def)
  have F2: "new_Date env (date_text y m d @ ''T'' @ time_text h mi sec @ ''Z'')
                  = Some (MakeDay (int y) (int m) (int d) * msPerDay
                            + ((int h * 60 + int mi) * 60 + int sec) * 1000)"
    if a: "y \<le> 9999 \<and> 1 \<le> m \<and> m \<le> 12 \<and> 1 \<le> d \<and> int d \<le> days_in_month (int y) (int m)"
      and b: "h \<le> 23 \<and> mi \<le> 59 \<and> sec \<le> 59"
    using E [OF a b, of 0 "''Z''" "''Z''"] parse_time_text [OF pt [OF b], of "''Z''"]
    by simp
  have F3: "isValidDatetime env
                     (date_text y m d @ ''T'' @ time_text h mi sec @ ''.'' @ pad_left 3 (show_nat ms))"
    if a: "y \<le> 9999 \<and> 1 \<le> m \<and> m \<le> 12 \<and> 1 \<le> d \<and> int d \<le> days_in_month (int y) (int m)"
      and b: "h \<le> 23 \<and> mi \<le> 59 \<and> sec \<le> 59" and c: "ms \<le> 999"
  proof -
    from c have "digits_n 3 (pad_left 3 (show_nat ms) @ []) = Some (int ms, [])"
      by (intro digits_n_three) simp
    then have "parse_time (time_text h mi sec @ ''.'' @ pad_left 3 (show_nat ms))
                 = Some (int h, int mi, int sec, int ms, [])"
      using parse_time_text [OF pt [OF b], of "''.'' @ pad_left 3 (show_nat ms)"] by simp
    with E [OF a b, of "int ms" "''.'' @ pad_left 3 (show_nat ms)" "[]"] c
    show ?thesis by (simp add: isValidDatetime_def)
  qed
  have F4: "new_Date env
                       (date_text y m d @ ''T'' @ time_text h mi sec @ ''.''
                          @ pad_left 3 (show_nat ms) @ ''Z'')
                       = Some (MakeDay (int y) (int m) (int d) * msPerDay
                                 + ((int h * 60 + int mi) * 60 + int sec) * 1000 + int ms)"
    if a: "y \<le> 9999 \<and> 1 \<le> m \<and> m \<le> 12 \<and> 1 \<le> d \<and> int d \<le> days_in_month (int y) (int m)"
      and b: "h \<le> 23 \<and> mi \<le> 59 \<and> sec \<le> 59" and c: "ms \<le> 999"
  proof -
    from c have "digits_n 3 (pad_left 3 (show_nat ms) @ ''Z'') = Some (int ms, ''Z'')"
      by (intro digits_n_three) simp
    then have "parse_time (time_text h mi sec @ ''.'' @ pad_left 3 (show_nat ms) @ ''Z'')
                 = Some (int h, int mi, int sec, int ms, ''Z'')"
      using parse_time_text [OF pt [OF b], of "''.'' @ pad_left 3 (show_nat ms) @ ''Z''"] by simp
    with E [OF a b, of "int ms" "''.'' @ pad_left 3 (show_nat ms) @ ''Z''" "''Z''"] c
    show ?thesis by simp
  qed
  have G1: "\<not> isValidDatetime env ''not-a-date''"
    by (rule C) (simp add: is_digit_def)
  have G2: "\<not> isValidDatetime env []"
    by (rule C) simp
  have G3: "isValidDatetime env ''2024-01-15T10:30:00.000Z''"
    by (simp add: isValidDatetime_def new_Date_def Date_parse_def iso_full TimeClip_def)
  have G4: "isValidDatetime env ''2024-01-15''"
    by (simp add: isValidDatetime_def new_Date_def Date_parse_def iso_date_only TimeClip_def)
  from tz have "\<bar>local_tza env 1705314600000\<bar> \<le> 86400000" by (simp add: msPerDay_def)
  then have G5: "isValidDatetime env ''2024-01-15T10:30:00''"
    by (simp add: isValidDatetime_def new_Date_def Date_parse_def iso_local TimeClip_def)
  show ?thesis
    using A B C [of s] D F1 F2 F3 F4 G1 G2 G3 G4 G5
    by (simp add: isValidDatetime_def)
qed

theorem isValidDatetime_accepts_and_rejects_witness:
  "\<not> isValidDatetime sample_runtime ''not-a-date''
   \<and> \<not> isValidDatetime sample_runtime []
   \<and> \<not> isValidDatetime sample_runtime ''hello world''
   \<and> \<not> isValidDatetime sample_runtime ''2024-99-99''
   \<and> isValidDatetime sample_runtime ''2024-01-15T10:30:00.000Z''
   \<and> isValidDatetime sample_runtime ''2024-01-15''
   \<and> isValidDatetime sample_runtime ''2024-01-15T10:30:00''
   \<and> isValidDatetime sample_runtime ''2024-02-29''
   \<and> isValidDatetime sample_runtime ''2024-02-29T23:59:59''"
proof -
  have fb: "\<forall>s. date_fallback sample_runtime s \<noteq> None \<longrightarrow> list_ex is_digit s"
    by (simp add: sample_runtime_def)
  have tz: "\<forall>t. \<bar>local_tza sample_runtime t\<bar> \<le> msPerDay"
    by (simp add: sample_runtime_def msPerDay_def)
  note t = isValidDatetime_accepts_and_rejects [OF fb tz]
  have nd: "\<not> list_ex is_digit ''hello world''" by (simp add: is_digit_def)
  have leap: "(2024 :: nat) \<le> 9999 \<and> (1 :: nat) \<le> 2 \<and> (2 :: nat) \<le> 12 \<and> (1 :: nat) \<le> 29
      \<and> int 29 \<le> days_in_month (int 2024) (int 2)"
    by (simp add: days_in_month_def InLeapYear_def)
  have tm: "(23 :: nat) \<le> 23 \<and> (59 :: nat) \<le> 59 \<and> (59 :: nat) \<le> 59" by simp
  have nf: "\<not> (\<exists>u. date_fallback sample_runtime ''2024-99-99'' = Some u \<and> \<bar>u\<bar> \<le> 8640000000000000)"
    by (simp add: sample_runtime_def)
  note 1 = t [THEN conjunct2, THEN conjunct2, THEN conjunct2, THEN conjunct2]
  note 3 = t [where s = "''hello world''", THEN conjunct2, THEN conjunct2, THEN conjunct1,
              THEN mp, OF nd]
  from t [where s = "''2024-99-99''", THEN conjunct2, THEN conjunct1, THEN mp,
          OF iso_no_such_month] nf
  have 4: "\<not> isValidDatetime sample_runtime ''2024-99-99''" by blast
  note f = t [where y = 2024 and m = 2 and d = 29 and h = 23 and mi = 59 and sec = 59,
              THEN conjunct2, THEN conjunct2, THEN conjunct2, THEN conjunct1, THEN mp, OF leap]
  from f [THEN conjunct2, THEN conjunct1]
  have 8: "isValidDatetime sample_runtime ''2024-02-29''" by (simp add: date_text_sample)
  from f [THEN conjunct2, THEN conjunct2, THEN mp, OF tm, THEN conjunct1]
  have 9: "isValidDatetime sample_runtime ''2024-02-29T23:59:59''"
    by (simp add: date_text_sample time_text_sample)
  from 1 3 4 8 9 show ?thesis by blast
qed

subsection \<open>Timestamps\<close>















subsection \<open>Update and delete\<close>

text \<open>The update statement that a validated body leads to.\<close>

lemma put_reaches_storage:
  assumes auth: "param_userId req = userId c \<or> siteAdmin c"
    and body: "req_body req = Some b"
    and dt: "get_property b ''datetime'' = Inr dt"
    and v: "get_property b ''value'' = Inr v"
    and dt_ok: "dt = None \<and> nd = None \<or> (\<exists>s. dt = Some (JString s) \<and> isValidDatetime env s \<and> nd = new_Date env s)"
    and v_ok: "v = None \<and> nv = None \<or> (\<exists>x. v = Some (JNumber x) \<and> 0 < x \<and> nv = Some x)"
    and some: "dt \<noteq> None \<or> v \<noteq> None"
  shows "historiesRouter_put env c req db =
     (case update_histories env
             \<lparr>upd_datetime = nd, upd_value = nv, upd_updated_at = Some (js_now env)\<rparr>
             (param_historyId req) (param_userId req) db of
        (Inl e, db') \<Rightarrow> (Threw e, db')
      | (Inr result, db') \<Rightarrow>
          (case result of
             [] \<Rightarrow> (Responded \<lparr>status = 404, body = errorResponse ''History not found''\<rparr>, db')
           | h # _ \<Rightarrow>
               (Responded \<lparr>status = 200, body = successResponse (HistoryItem (serializeHistory h))\<rparr>,
                db')))"
proof -
  have nd: "dt \<noteq> None \<Longrightarrow> nd \<noteq> None"
    using dt_ok by (auto simp: isValidDatetime_def)
  have nv: "v \<noteq> None \<Longrightarrow> nv \<noteq> None"
    using v_ok by auto
  from some nd nv have ne: "\<not> (nd = None \<and> nv = None)" by blast
  from dt_ok have 1: "(case dt of None \<Rightarrow> Some None
                 | Some (JString s) \<Rightarrow> if isValidDatetime env s then Some (new_Date env s) else None
                 | Some _ \<Rightarrow> None) = Some nd"
    by auto
  from v_ok have 2: "(case v of None \<Rightarrow> Some None
                 | Some (JNumber x) \<Rightarrow> if x \<le> 0 then None else Some (Some x)
                 | Some _ \<Rightarrow> None) = Some nv"
    by auto
  from auth have a: "\<not> (param_userId req \<noteq> userId c \<and> \<not> siteAdmin c)" by blast
  show ?thesis
    using a ne
    by (simp add: historiesRouter_put_def req_json_def body dt v 1 2 json_response_def
          split: prod.splits sum.splits list.splits)
qed




lemma update_shape:
  assumes "update_histories env u hid owner db = (Inr res, db')" and "res \<noteq> []"
  shows "\<exists>i ts hv. uuid_in hid = Some i
           \<and> (upd_datetime u = None \<and> ts = None
                \<or> (\<exists>t t'. upd_datetime u = Some t \<and> timestamp_in env t = Inr t' \<and> ts = Some t'))
           \<and> (upd_value u = None \<and> hv = None
                \<or> (\<exists>x k. upd_value u = Some x \<and> numeric_12_2 x = Inr k \<and> hv = Some k))
           \<and> db' = executed UpdateHistories
                 (db\<lparr>histories :=
                       map (\<lambda>row. if s_id row = i \<and> s_user_id row = owner
                                   then set_columns ts hv (upd_updated_at u) row else row)
                         (histories db)\<rparr>)"
  using assms
  by (auto simp: update_histories_def Let_def split: if_splits option.splits sum.splits)




lemma put_success_body:
  assumes "historiesRouter_put env c req db = (Responded r, db')" and "status r = 200"
  shows "\<exists>b dt v. (param_userId req = userId c \<or> siteAdmin c)
           \<and> req_body req = Some b
           \<and> get_property b ''datetime'' = Inr dt \<and> get_property b ''value'' = Inr v
           \<and> (dt = None \<or> (\<exists>s. dt = Some (JString s) \<and> isValidDatetime env s))
           \<and> (v = None \<or> (\<exists>x. v = Some (JNumber x) \<and> 0 < x))
           \<and> (dt \<noteq> None \<or> v \<noteq> None)"
  using assms
  by (auto simp: historiesRouter_put_def req_json_def json_response_def
        split: if_splits sum.splits option.splits json.splits prod.splits list.splits)

lemma put_success_state:
  assumes put: "historiesRouter_put env c req db = (Responded r, db')" and ok: "status r = 200"
  shows "\<exists>b dt v i ts hv.
           req_body req = Some b \<and> uuid_in (param_historyId req) = Some i
         \<and> get_property b ''datetime'' = Inr dt \<and> get_property b ''value'' = Inr v
         \<and> (dt = None \<and> ts = None
              \<or> (\<exists>s t t'. dt = Some (JString s) \<and> new_Date env s = Some t
                    \<and> timestamp_in env t = Inr t' \<and> ts = Some t'))
         \<and> (v = None \<and> hv = None
              \<or> (\<exists>x k. v = Some (JNumber x) \<and> numeric_12_2 x = Inr k \<and> hv = Some k))
         \<and> db' = executed UpdateHistories
               (db\<lparr>histories :=
                     map (\<lambda>row. if s_id row = i \<and> s_user_id row = param_userId req
                                 then set_columns ts hv (Some (js_now env)) row
                                 else row) (histories db)\<rparr>)"
proof -
  from put_success_body [OF put ok] obtain b dt v where
    auth: "param_userId req = userId c \<or> siteAdmin c" and
    b: "req_body req = Some b" and
    dt: "get_property b ''datetime'' = Inr dt" and v: "get_property b ''value'' = Inr v" and
    dt_ok: "dt = None \<or> (\<exists>s. dt = Some (JString s) \<and> isValidDatetime env s)" and
    v_ok: "v = None \<or> (\<exists>x. v = Some (JNumber x) \<and> 0 < x)" and
    some: "dt \<noteq> None \<or> v \<noteq> None"
    by blast
  define nd where "nd = (case dt of Some (JString s) \<Rightarrow> new_Date env s | _ \<Rightarrow> None)"
  define nv where "nv = (case v of Some (JNumber x) \<Rightarrow> Some x | _ \<Rightarrow> None)"
  let ?u = "\<lparr>upd_datetime = nd, upd_value = nv, upd_updated_at = Some (js_now env)\<rparr>"
  from dt_ok have dt_ok': "dt = None \<and> nd = None
      \<or> (\<exists>s. dt = Some (JString s) \<and> isValidDatetime env s \<and> nd = new_Date env s)"
    by (auto simp: nd_def)
  from v_ok have v_ok': "v = None \<and> nv = None \<or> (\<exists>x. v = Some (JNumber x) \<and> 0 < x \<and> nv = Some x)"
    by (auto simp: nv_def)
  note eq = put_reaches_storage [OF auth b dt v dt_ok' v_ok' some, of db]
  obtain res db1 where upd: "update_histories env ?u (param_historyId req) (param_userId req) db = (res, db1)"
    by (cases "update_histories env ?u (param_historyId req) (param_userId req) db")
  from eq put upd ok obtain h hs where res: "res = Inr (h # hs)" and db1: "db1 = db'"
    by (auto split: sum.splits list.splits)
  from update_shape [of env ?u "param_historyId req" "param_userId req" db "h # hs" db1] upd res
  obtain i ts hv where
    i: "uuid_in (param_historyId req) = Some i" and
    ts: "upd_datetime ?u = None \<and> ts = None
          \<or> (\<exists>t t'. upd_datetime ?u = Some t \<and> timestamp_in env t = Inr t' \<and> ts = Some t')" and
    hv: "upd_value ?u = None \<and> hv = None
          \<or> (\<exists>x k. upd_value ?u = Some x \<and> numeric_12_2 x = Inr k \<and> hv = Some k)" and
    st: "db1 = executed UpdateHistories
               (db\<lparr>histories :=
                     map (\<lambda>row. if s_id row = i \<and> s_user_id row = param_userId req
                                 then set_columns ts hv (upd_updated_at ?u) row else row)
                       (histories db)\<rparr>)"
    by auto
  from hv v_ok' have hv': "v = None \<and> hv = None
              \<or> (\<exists>x k. v = Some (JNumber x) \<and> numeric_12_2 x = Inr k \<and> hv = Some k)"
    by auto
  from ts dt_ok' have ts': "dt = None \<and> ts = None
              \<or> (\<exists>s t t'. dt = Some (JString s) \<and> new_Date env s = Some t
                    \<and> timestamp_in env t = Inr t' \<and> ts = Some t')"
    by (auto simp: isValidDatetime_def)
  have "upd_updated_at ?u = Some (js_now env)" by simp
  with st have st': "db1 = executed UpdateHistories
               (db\<lparr>histories :=
                     map (\<lambda>row. if s_id row = i \<and> s_user_id row = param_userId req
                                 then set_columns ts hv (Some (js_now env)) row else row)
                       (histories db)\<rparr>)"
    by metis
  from b i dt v ts' hv' st' db1 show ?thesis by blast
qed

lemma numeric_12_2_99: "numeric_12_2 99 = Inr 9900"
  by code_simp






text \<open>
  C5. An update whose body has neither \<open>datetime\<close> nor \<open>value\<close> (whatever else it
  has) is answered 400 with the message \<open>No fields to update\<close> and changes nothing. A
  successful update leaves the users, and the id, owner and creation time of every
  history row, as they were, leaves every row that does not match untouched, and sets
  the update time of every matching row to the current time. When the body has no
  \<open>datetime\<close>, a successful update changes the value and the update time of the
  matching rows and nothing else. A row matches when the path's record id is a text of
  its \<open>UUID\<close> and the path's user id is its owner.
\<close>

theorem partial_update_frame:
  "((param_userId req = userId c \<or> siteAdmin c) \<and> req_body req = Some b
      \<and> get_property b ''datetime'' = Inr None \<and> get_property b ''value'' = Inr None \<longrightarrow>
    historiesRouter_put env c req db
      = (Responded \<lparr>status = 400, body = errorResponse ''No fields to update''\<rparr>, db))
   \<and> (historiesRouter_put env c req db = (Responded r, db') \<and> status r = 200 \<longrightarrow>
        users db' = users db
        \<and> list_all2
            (\<lambda>old new. s_id new = s_id old \<and> s_user_id new = s_user_id old
               \<and> s_created_at new = s_created_at old
               \<and> (if uuid_in (param_historyId req) = Some (s_id old)
                      \<and> s_user_id old = param_userId req
                   then s_updated_at new = Some (js_now env) else new = old))
            (histories db) (histories db'))
   \<and> (historiesRouter_put env c req db = (Responded r, db') \<and> status r = 200
        \<and> req_body req = Some b \<and> get_property b ''datetime'' = Inr None \<longrightarrow>
        (\<exists>x k. get_property b ''value'' = Inr (Some (JNumber x)) \<and> numeric_12_2 x = Inr k
           \<and> histories db'
               = map (\<lambda>row. if uuid_in (param_historyId req) = Some (s_id row)
                                \<and> s_user_id row = param_userId req
                             then row\<lparr>s_value := k, s_updated_at := Some (js_now env)\<rparr>
                             else row) (histories db)))"
proof (intro conjI impI)
  assume "(param_userId req = userId c \<or> siteAdmin c) \<and> req_body req = Some b
      \<and> get_property b ''datetime'' = Inr None \<and> get_property b ''value'' = Inr None"
  then show "historiesRouter_put env c req db
      = (Responded \<lparr>status = 400, body = errorResponse ''No fields to update''\<rparr>, db)"
    by (auto simp: historiesRouter_put_def req_json_def json_response_def)
next
  assume a: "historiesRouter_put env c req db = (Responded r, db') \<and> status r = 200"
  from put_success_state [of env c req db r db'] a obtain i ts hv where
    i: "uuid_in (param_historyId req) = Some i" and
    st: "db' = executed UpdateHistories
               (db\<lparr>histories :=
                     map (\<lambda>row. if s_id row = i \<and> s_user_id row = param_userId req
                                 then set_columns ts hv (Some (js_now env)) row else row)
                       (histories db)\<rparr>)"
    by force
  from st show "users db' = users db" by (simp add: executed_def)
  from i have eq: "(uuid_in (param_historyId req) = Some j) = (j = i)" for j by auto
  from st show "list_all2
            (\<lambda>old new. s_id new = s_id old \<and> s_user_id new = s_user_id old
               \<and> s_created_at new = s_created_at old
               \<and> (if uuid_in (param_historyId req) = Some (s_id old)
                      \<and> s_user_id old = param_userId req
                   then s_updated_at new = Some (js_now env) else new = old))
            (histories db) (histories db')"
    by (simp add: executed_def list_all2_map2 list_all2_same set_columns_def eq)
next
  assume a: "historiesRouter_put env c req db = (Responded r, db') \<and> status r = 200
        \<and> req_body req = Some b \<and> get_property b ''datetime'' = Inr None"
  from put_success_state [of env c req db r db'] a obtain v i ts hv where
    i: "uuid_in (param_historyId req) = Some i" and
    v: "get_property b ''value'' = Inr v" and
    ts: "ts = None" and
    hv: "v = None \<and> hv = None
              \<or> (\<exists>x k. v = Some (JNumber x) \<and> numeric_12_2 x = Inr k \<and> hv = Some k)" and
    st: "db' = executed UpdateHistories
               (db\<lparr>histories :=
                     map (\<lambda>row. if s_id row = i \<and> s_user_id row = param_userId req
                                 then set_columns ts hv (Some (js_now env)) row
                                 else row) (histories db)\<rparr>)"
    by force
  from put_success_body [of env c req db r db'] a v have "v \<noteq> None" by auto
  with hv obtain x k where x: "v = Some (JNumber x)" "numeric_12_2 x = Inr k" "hv = Some k" by blast
  from i have eq: "(uuid_in (param_historyId req) = Some j) = (j = i)" for j by auto
  from st x ts have "histories db'
               = map (\<lambda>row. if uuid_in (param_historyId req) = Some (s_id row)
                                \<and> s_user_id row = param_userId req
                             then row\<lparr>s_value := k, s_updated_at := Some (js_now env)\<rparr>
                             else row) (histories db)"
    by (auto simp: executed_def set_columns_def eq)
  with v x show "\<exists>x k. get_property b ''value'' = Inr (Some (JNumber x)) \<and> numeric_12_2 x = Inr k
           \<and> histories db'
               = map (\<lambda>row. if uuid_in (param_historyId req) = Some (s_id row)
                                \<and> s_user_id row = param_userId req
                             then row\<lparr>s_value := k, s_updated_at := Some (js_now env)\<rparr>
                             else row) (histories db)"
    by blast
qed

theorem partial_update_frame_witness:
  "historiesRouter_put sample_runtime sample_owner
     (sample_request ''bob'' ''11111111-1111-1111-1111-111111111111''
        (Some (JObject [(''note'', JString ''x'')]))) sample_database
     = (Responded \<lparr>status = 400, body = errorResponse ''No fields to update''\<rparr>, sample_database)
   \<and> histories (snd (historiesRouter_put sample_runtime sample_owner
         (sample_request ''bob'' ''11111111-1111-1111-1111-111111111111''
            (Some (JObject [(''value'', JNumber 99)]))) sample_database))
     = [\<lparr>s_id = [17, 17, 17, 17, 17, 17, 17, 17, 17, 17, 17, 17, 17, 17, 17, 17],
         s_user_id = ''bob'', s_datetime = 1705276800000, s_value = 9900,
         s_created_at = Some 1705276800000, s_updated_at = Some 1705318200000\<rparr>]"
proof -
  let ?id = "[17, 17, 17, 17, 17, 17, 17, 17, 17, 17, 17, 17, 17, 17, 17, 17] :: nat list"
  let ?stored = "''11111111-1111-1111-1111-111111111111''"
  let ?nofields = "JObject [(''note'', JString ''x'')]"
  let ?b = "JObject [(''value'', JNumber 99)]"
  let ?req = "sample_request ''bob'' ?stored (Some ?b)"
  let ?row = "\<lparr>s_id = ?id, s_user_id = ''bob'', s_datetime = 1705276800000, s_value = 9900,
         s_created_at = Some 1705276800000, s_updated_at = Some 1705318200000\<rparr>"
  let ?r = "\<lparr>status = 200,
             body = successResponse (HistoryItem (serializeHistory (fetch sample_runtime ?row)))\<rparr>"
  let ?db' = "executed UpdateHistories (sample_database\<lparr>histories := [?row]\<rparr>)"
  have h0: "(param_userId (sample_request ''bob'' ?stored (Some ?nofields)) = userId sample_owner
               \<or> siteAdmin sample_owner)
            \<and> req_body (sample_request ''bob'' ?stored (Some ?nofields)) = Some ?nofields
            \<and> get_property ?nofields ''datetime'' = Inr None \<and> get_property ?nofields ''value'' = Inr None"
    by (simp add: sample_request_def sample_owner_def)
  have now: "js_now sample_runtime = 1705318200000" by (simp add: sample_runtime_def)
  have upd: "update_histories sample_runtime
               \<lparr>upd_datetime = None, upd_value = Some 99, upd_updated_at = Some 1705318200000\<rparr>
               ?stored ''bob'' sample_database
             = (Inr [fetch sample_runtime ?row], ?db')"
    by (simp add: update_histories_def uuid_in_stored numeric_12_2_99 sample_database_def
          set_columns_def)
  have run: "historiesRouter_put sample_runtime sample_owner ?req sample_database = (Responded ?r, ?db')"
    by (simp add: historiesRouter_put_def req_json_def sample_request_def sample_owner_def
          now upd json_response_def)
  have h1: "historiesRouter_put sample_runtime sample_owner ?req sample_database = (Responded ?r, ?db')
            \<and> status ?r = 200 \<and> req_body ?req = Some ?b \<and> get_property ?b ''datetime'' = Inr None"
    using run by (simp add: sample_request_def)
  note 1 = partial_update_frame [where req = "sample_request ''bob'' ?stored (Some ?nofields)"
         and b = ?nofields and c = sample_owner and env = sample_runtime and db = sample_database,
         THEN conjunct1, THEN mp, OF h0]
  from partial_update_frame [where req = ?req and b = ?b and c = sample_owner
         and env = sample_runtime and db = sample_database and r = ?r and db' = ?db',
         THEN conjunct2, THEN conjunct2, THEN mp, OF h1]
  obtain x k where "get_property ?b ''value'' = Inr (Some (JNumber x))" "numeric_12_2 x = Inr k"
     "histories ?db' = map (\<lambda>row. if uuid_in (param_historyId ?req) = Some (s_id row)
                                      \<and> s_user_id row = param_userId ?req
                             then row\<lparr>s_value := k, s_updated_at := Some (js_now sample_runtime)\<rparr>
                             else row) (histories sample_database)"
    by blast
  then have "histories ?db' = [?row]"
    by (simp add: executed_def)
  with run have 2: "histories (snd (historiesRouter_put sample_runtime sample_owner ?req sample_database))
     = [?row]" by simp
  from 1 2 show ?thesis by (rule conjI)
qed

subsection \<open>Create\<close>





























subsection \<open>The error handler\<close>

lemma dispatch_threw:
  "handler db = (Threw err, db') \<Longrightarrow>
     dispatch handler db
       = (Responded \<lparr>status = 500, body = errorResponse ''Internal server error''\<rparr>, db')"
  by (simp add: dispatch_def onError_def json_response_def)

lemma dispatch_responds: "\<exists>r db'. dispatch handler db = (Responded r, db')"
  by (cases "handler db") (auto simp: dispatch_def split: outcome.splits)

lemma list_never_throws: "historiesRouter_get env c req db \<noteq> (Threw e, db')"
  by (simp add: historiesRouter_get_def Let_def split: prod.splits)

lemma profile_never_throws: "usersRouter_get env c req db \<noteq> (Threw e, db')"
  by (simp add: usersRouter_get_def Let_def split: prod.splits list.splits)

lemma routes_responds: "\<exists>r db'. routes env svc any req db = (Responded r, db')"
  by (cases any) (simp_all add: routes_def dispatch_responds)

text \<open>
  C2. An error thrown by a handler or middleware that the dispatcher runs is answered
  with status 500 and the fixed message \<open>Internal server error\<close>, whatever the error
  is. This holds behind the auth middleware as well: when a history handler throws on the
  context that the middleware has set, the route answers 500 with that message (the
  dispatcher has turned the error into the response before the middleware's own
  \<open>catch\<close> could see it), and so it does when the handler that the route matches
  throws. Every route ends in a response, one for each request.
  The errors of the model are the \<open>Error\<close> objects that the handlers, the body
  parser and the storage client throw.
\<close>

theorem escaping_exception_answered_500:
  "(handler db = (Threw err, db') \<longrightarrow>
      dispatch handler db
        = (Responded \<lparr>status = 500, body = errorResponse ''Internal server error''\<rparr>, db'))
   \<and> (authorization req = Some (''Bearer '' @ tok) \<and> tok \<noteq> []
        \<and> CHR '' '' \<notin> set tok \<and> verifyIdToken svc tok = Some d \<and> \<not> isAnonymousUser svc d
        \<and> historiesRouter rt env
              \<lparr>firebaseUser = d, userId = uid d, userEmail = email d,
               siteAdmin = isSiteAdmin svc (email d)\<rparr> req db = (Threw err, db') \<longrightarrow>
      routes env svc (Authenticated rt) req db
        = (Responded \<lparr>status = 500, body = errorResponse ''Internal server error''\<rparr>, db'))
   \<and> (authorization req = Some (''Bearer '' @ tok) \<and> tok \<noteq> []
        \<and> CHR '' '' \<notin> set tok \<and> verifyIdToken svc tok = Some d \<and> \<not> isAnonymousUser svc d
        \<and> authRoutes rt env
              \<lparr>firebaseUser = d, userId = uid d, userEmail = email d,
               siteAdmin = isSiteAdmin svc (email d)\<rparr> req db = (Threw err, db') \<longrightarrow>
      routes env svc (Authenticated rt) req db
        = (Responded \<lparr>status = 500, body = errorResponse ''Internal server error''\<rparr>, db'))
   \<and> (\<exists>r db''. routes env svc any req db = (Responded r, db''))"
proof (intro conjI impI)
  assume "handler db = (Threw err, db')"
  then show "dispatch handler db
        = (Responded \<lparr>status = 500, body = errorResponse ''Internal server error''\<rparr>, db')"
    by (rule dispatch_threw)
next
  assume a: "authorization req = Some (''Bearer '' @ tok) \<and> tok \<noteq> []
        \<and> CHR '' '' \<notin> set tok \<and> verifyIdToken svc tok = Some d \<and> \<not> isAnonymousUser svc d
        \<and> historiesRouter rt env
              \<lparr>firebaseUser = d, userId = uid d, userEmail = email d,
               siteAdmin = isSiteAdmin svc (email d)\<rparr> req db = (Threw err, db')"
  then have thr: "historiesRouter rt env
              \<lparr>firebaseUser = d, userId = uid d, userEmail = email d,
               siteAdmin = isSiteAdmin svc (email d)\<rparr> req db = (Threw err, db')" by blast
  then have "rt \<noteq> GET_histories"
    by (auto simp: historiesRouter_def list_never_throws)
  then have same: "authRoutes rt env
              \<lparr>firebaseUser = d, userId = uid d, userEmail = email d,
               siteAdmin = isSiteAdmin svc (email d)\<rparr> req db
            = historiesRouter rt env
              \<lparr>firebaseUser = d, userId = uid d, userEmail = email d,
               siteAdmin = isSiteAdmin svc (email d)\<rparr> req db"
    by (cases rt) (simp_all add: authRoutes_def)
  from a have "routes env svc (Authenticated rt) req db
      = dispatch (authRoutes rt env
               \<lparr>firebaseUser = d, userId = uid d, userEmail = email d,
                siteAdmin = isSiteAdmin svc (email d)\<rparr> req) db"
    using routes_behind_middleware [of req tok "[]" svc d env rt db] by simp
  with thr same show "routes env svc (Authenticated rt) req db
        = (Responded \<lparr>status = 500, body = errorResponse ''Internal server error''\<rparr>, db')"
    by (simp add: dispatch_threw)
next
  assume a: "authorization req = Some (''Bearer '' @ tok) \<and> tok \<noteq> []
        \<and> CHR '' '' \<notin> set tok \<and> verifyIdToken svc tok = Some d \<and> \<not> isAnonymousUser svc d
        \<and> authRoutes rt env
              \<lparr>firebaseUser = d, userId = uid d, userEmail = email d,
               siteAdmin = isSiteAdmin svc (email d)\<rparr> req db = (Threw err, db')"
  then have "routes env svc (Authenticated rt) req db
      = dispatch (authRoutes rt env
               \<lparr>firebaseUser = d, userId = uid d, userEmail = email d,
                siteAdmin = isSiteAdmin svc (email d)\<rparr> req) db"
    using routes_behind_middleware [of req tok "[]" svc d env rt db] by simp
  with a show "routes env svc (Authenticated rt) req db
        = (Responded \<lparr>status = 500, body = errorResponse ''Internal server error''\<rparr>, db')"
    by (simp add: dispatch_threw)
next
  show "\<exists>r db''. routes env svc any req db = (Responded r, db'')"
    by (rule routes_responds)
qed

theorem escaping_exception_answered_500_witness:
  "historiesRouter POST_histories sample_runtime sample_context
      ((sample_request ''alice'' [] None)\<lparr>authorization := Some ''Bearer alice-token''\<rparr>)
      sample_database = (Threw SyntaxError, sample_database)
   \<and> routes sample_runtime sample_auth (Authenticated POST_histories)
      ((sample_request ''alice'' [] None)\<lparr>authorization := Some ''Bearer alice-token''\<rparr>)
      sample_database
     = (Responded \<lparr>status = 500, body = errorResponse ''Internal server error''\<rparr>, sample_database)"
proof -
  let ?req = "(sample_request ''alice'' [] None)\<lparr>authorization := Some ''Bearer alice-token''\<rparr>"
  let ?d = "\<lparr>uid = ''alice'', email = None\<rparr>"
  have c: "\<lparr>firebaseUser = ?d, userId = uid ?d, userEmail = email ?d,
            siteAdmin = isSiteAdmin sample_auth (email ?d)\<rparr> = sample_context"
    by (simp add: sample_context_def sample_auth_def)
  have thr: "historiesRouter POST_histories sample_runtime sample_context ?req sample_database
      = (Threw SyntaxError, sample_database)"
    by (simp add: historiesRouter_def historiesRouter_post_def req_json_def sample_request_def
          sample_context_def)
  have h: "authorization ?req = Some (''Bearer '' @ ''alice-token'') \<and> ''alice-token'' \<noteq> []
        \<and> CHR '' '' \<notin> set ''alice-token'' \<and> verifyIdToken sample_auth ''alice-token'' = Some ?d
        \<and> \<not> isAnonymousUser sample_auth ?d
        \<and> historiesRouter POST_histories sample_runtime
              \<lparr>firebaseUser = ?d, userId = uid ?d, userEmail = email ?d,
               siteAdmin = isSiteAdmin sample_auth (email ?d)\<rparr> ?req sample_database
            = (Threw SyntaxError, sample_database)"
    unfolding c using thr by (simp add: sample_auth_def)
  from escaping_exception_answered_500
    [where rt = POST_histories and req = ?req and tok = "''alice-token''" and svc = sample_auth
       and d = ?d and env = sample_runtime and db = sample_database and err = SyntaxError
       and db' = sample_database] h
  have "routes sample_runtime sample_auth (Authenticated POST_histories) ?req sample_database
     = (Responded \<lparr>status = 500, body = errorResponse ''Internal server error''\<rparr>, sample_database)"
    by blast
  with thr show ?thesis by blast
qed

end
